theory Spec2Isabelle
  imports Complex_Main "HOL-Library.Multiset"
begin

section \<open>Strings, values and the Python runtime\<close>

text \<open>
  A Python \<open>str\<close> is a sequence of Unicode code points; it is modelled as a list of
  natural numbers, one per code point, so that \<open>length\<close>, slicing and comparison count what
  Python counts. String literals of the source are written as their code points.
  Definitions carry the names of the source; the underscore that starts the name of a
  private method is dropped.
\<close>

type_synonym ustr = "nat list"

text \<open>A dynamically typed argument: \<open>None\<close>, a \<open>str\<close>, or an object of another type.\<close>

datatype pyval = PyNone | PyStr ustr | PyOther

text \<open>
  The library functions whose tables are not part of this repository are parameters:
  \<open>py_isword\<close> is the class \<open>\w\<close> of \<open>re\<close>, \<open>py_isdigit\<close> the class \<open>\d\<close>,
  \<open>py_lower\<close> is \<open>str.lower\<close>, \<open>sm_ratio\<close> is \<open>difflib.SequenceMatcher(None, a, b).ratio()\<close>
  and \<open>re_group1 p s\<close> is group 1 of the first match of pattern \<open>p\<close> in \<open>s\<close>.
\<close>

datatype pattern =
    CompanyChinese     \<comment> \<open>a Chinese run before a company word, searched\<close>
  | CompanyEnglish     \<comment> \<open>\<^verbatim>\<open>([A-Z][a-z]+)(?:\s+(?:Electric|Electronics|Technology|Corp|Ltd|Inc))\<close>, searched\<close>
  | CompanyShort       \<comment> \<open>two to four Chinese characters before a Chinese run and the appliance word, searched\<close>
  | PowerKfrGw         \<comment> \<open>\<^verbatim>\<open>KFR?-(\d+)GW\<close>, searched, ignoring case\<close>
  | PowerGw            \<comment> \<open>\<^verbatim>\<open>(\d+)GW\<close>, searched, ignoring case\<close>
  | PowerKfr           \<comment> \<open>\<^verbatim>\<open>KFR?-(\d+)\<close>, searched, ignoring case\<close>

record runtime =
  py_isword :: "nat \<Rightarrow> bool"
  py_isdigit :: "nat \<Rightarrow> bool"
  py_lower :: "ustr \<Rightarrow> ustr"
  sm_ratio :: "ustr \<Rightarrow> ustr \<Rightarrow> real"
  re_group1 :: "pattern \<Rightarrow> ustr \<Rightarrow> ustr option"

text \<open>
  \<open>str.strip()\<close> removes the characters for which \<open>str.isspace\<close> holds, on both sides.
\<close>

definition py_isspace :: "nat \<Rightarrow> bool" where
  "py_isspace c \<longleftrightarrow>
     (0x09 \<le> c \<and> c \<le> 0x0D) \<or> (0x1C \<le> c \<and> c \<le> 0x20) \<or> c = 0x85 \<or> c = 0xA0 \<or>
     c = 0x1680 \<or> (0x2000 \<le> c \<and> c \<le> 0x200A) \<or> c = 0x2028 \<or> c = 0x2029 \<or>
     c = 0x202F \<or> c = 0x205F \<or> c = 0x3000"

definition py_strip :: "ustr \<Rightarrow> ustr" where
  "py_strip s = rev (dropWhile py_isspace (rev (dropWhile py_isspace s)))"

definition startswith :: "ustr \<Rightarrow> ustr \<Rightarrow> bool" where
  "startswith s p \<longleftrightarrow> take (length p) s = p"

section \<open>model\_extractor.py\<close>

definition is_chinese :: "nat \<Rightarrow> bool" where
  "is_chinese c \<longleftrightarrow> 0x4E00 \<le> c \<and> c \<le> 0x9FFF"

text \<open>
  A literal of a pattern compiled with \<open>re.IGNORECASE\<close> matches a character whose lower
  case is the lower case of the literal, or one of its extra case variants (dotless i for
  \<open>i\<close>, long s for \<open>s\<close>).
\<close>

definition sre_lower :: "nat \<Rightarrow> nat" where
  "sre_lower c =
     (if 0x41 \<le> c \<and> c \<le> 0x5A then c + 0x20
      else if c = 0x130 then 0x69
      else if c = 0x212A then 0x6B
      else c)"

definition ci_literal :: "nat \<Rightarrow> nat \<Rightarrow> bool" where
  "ci_literal p c \<longleftrightarrow>
     sre_lower c = sre_lower p \<or>
     (sre_lower p = 0x69 \<and> c = 0x131) \<or> (sre_lower p = 0x73 \<and> c = 0x17F)"

text \<open>
  \<open>re.match('.*' + suffix + '$', model, re.IGNORECASE)\<close>: a run of characters other than
  the newline, then the suffix, then the end of the string or a final newline.
\<close>

definition match_suffix :: "ustr \<Rightarrow> ustr \<Rightarrow> bool" where
  "match_suffix suf s \<longleftrightarrow>
     (let n = length suf; m = length s in
        (n \<le> m \<and> list_all2 ci_literal suf (drop (m - n) s) \<and>
           0x0A \<notin> set (take (m - n) s))
      \<or> (n + 1 \<le> m \<and> last s = 0x0A \<and>
           list_all2 ci_literal suf (take n (drop (m - n - 1) s)) \<and>
           0x0A \<notin> set (take (m - n - 1) s)))"

definition version_patterns :: "ustr list" where
  "version_patterns =
     [[0x7248],
      [0x70, 0x72, 0x6F], [0x50, 0x72, 0x6F],
      [0x70, 0x6C, 0x75, 0x73], [0x50, 0x6C, 0x75, 0x73],
      [0x6D, 0x61, 0x78], [0x4D, 0x61, 0x78],
      [0x6D, 0x69, 0x6E, 0x69], [0x4D, 0x69, 0x6E, 0x69],
      [0x6C, 0x69, 0x74, 0x65], [0x4C, 0x69, 0x74, 0x65]]"

definition has_version_suffix :: "ustr \<Rightarrow> bool" where
  "has_version_suffix model \<longleftrightarrow> list_ex (\<lambda>suf. match_suffix suf model) version_patterns"

definition brand_gree :: ustr where "brand_gree = [0x683C, 0x529B]"
definition brand_midea_ac :: ustr where "brand_midea_ac = [0x7F8E, 0x7684, 0x7A7A, 0x8C03]"
definition brand_midea :: ustr where "brand_midea = [0x7F8E, 0x7684]"
definition brand_haier :: ustr where "brand_haier = [0x6D77, 0x5C14]"
definition brand_aux :: ustr where "brand_aux = [0x5965, 0x514B, 0x65AF]"
definition brand_chigo :: ustr where "brand_chigo = [0x5FD7, 0x9AD8]"
definition brand_tcl :: ustr where "brand_tcl = [0x54, 0x43, 0x4C]"
definition brand_xiaomi :: ustr where "brand_xiaomi = [0x5C0F, 0x7C73]"
definition brand_mijia :: ustr where "brand_mijia = [0x7C73, 0x5BB6]"

text \<open>The two \<open>common_brands\<close> lists: of \<open>extract_model\<close> and of the version-suffix path.\<close>

definition common_brands :: "ustr list" where
  "common_brands = [brand_midea, brand_haier, brand_aux, brand_chigo, brand_tcl]"

definition common_brands_version :: "ustr list" where
  "common_brands_version =
     [brand_midea, brand_haier, brand_aux, brand_chigo, brand_tcl, brand_xiaomi, brand_mijia]"

text \<open>The loop \<open>for brand in brands: if model.startswith(brand): return model[len(brand):].strip()\<close>.\<close>

fun strip_first_brand :: "ustr list \<Rightarrow> ustr \<Rightarrow> ustr option" where
  "strip_first_brand [] model = None"
| "strip_first_brand (b # bs) model =
     (if startswith model b then Some (py_strip (drop (length b) model))
      else strip_first_brand bs model)"

definition extract_with_version_suffix :: "ustr \<Rightarrow> ustr" where
  "extract_with_version_suffix model =
     (if startswith model brand_gree then py_strip (drop 2 model)
      else if startswith model brand_midea_ac then py_strip (drop 4 model)
      else (case strip_first_brand common_brands_version model of
              Some r \<Rightarrow> r
            | None \<Rightarrow> model))"

text \<open>
  \<open>_extract_generic\<close>: \<open>start_pos\<close> is the index of the first character that is not
  Chinese, \<open>end_pos\<close> one more than the index of the last such character; both loops end in
  their \<open>else\<close> branch when every character is Chinese.
\<close>

definition extract_generic :: "ustr \<Rightarrow> ustr" where
  "extract_generic model =
     (if list_all is_chinese model then model
      else let start_pos = length (takeWhile is_chinese model);
               end_pos = length model - length (takeWhile is_chinese (rev model));
               extracted = take (end_pos - start_pos) (drop start_pos model)
           in if extracted \<noteq> [] then py_strip extracted else model)"

definition extract_model_str :: "ustr \<Rightarrow> ustr" where
  "extract_model_str original_model =
     (let model = py_strip original_model in
      if model = [] then []
      else if has_version_suffix model then extract_with_version_suffix model
      else if startswith model brand_gree then py_strip (drop 2 model)
      else if startswith model brand_midea_ac then py_strip (drop 4 model)
      else (case strip_first_brand common_brands model of
              Some r \<Rightarrow> r
            | None \<Rightarrow>
                if startswith model [0x52, 0x46] then model
                else extract_generic model))"

definition extract_model :: "pyval \<Rightarrow> ustr" where
  "extract_model original_model =
     (case original_model of
        PyStr s \<Rightarrow> if s = [] then [] else extract_model_str s
      | _ \<Rightarrow> [])"

text \<open>
  Predicates used to state properties of \<open>extract_model\<close>: a string that \<open>strip\<close>
  leaves alone; a model to which one of the brand rules applies (the brand lists are those of
  the path the model takes); and a model that \<open>extract_model\<close> returns unchanged.
\<close>

definition stripped :: "ustr \<Rightarrow> bool" where
  "stripped s \<longleftrightarrow> (s = [] \<or> (\<not> py_isspace (hd s) \<and> \<not> py_isspace (last s)))"

definition strips_brand :: "ustr \<Rightarrow> bool" where
  "strips_brand model \<longleftrightarrow>
     startswith model brand_gree \<or> startswith model brand_midea_ac \<or>
     list_ex (startswith model)
       (if has_version_suffix model then common_brands_version else common_brands)"

definition stable_model :: "ustr \<Rightarrow> bool" where
  "stable_model y \<longleftrightarrow>
     \<not> strips_brand y \<and>
     (has_version_suffix y \<or> startswith y [0x52, 0x46] \<or> list_all is_chinese y \<or>
      (\<not> is_chinese (hd y) \<and> \<not> is_chinese (last y)))"

section \<open>result\_comparator.py\<close>

text \<open>The four verdict strings.\<close>

definition v_correct :: ustr where "v_correct = [0x6B63, 0x786E]"
definition v_incorrect :: ustr where "v_incorrect = [0x9519, 0x8BEF]"
definition v_not_found :: ustr where "v_not_found = [0x641C, 0x4E0D, 0x5230]"
definition v_excel_missing :: ustr where
  "v_excel_missing = [0x45, 0x78, 0x63, 0x65, 0x6C, 0x7F3A, 0x5931]"

text \<open>
  \<open>level_mapping\<close>, in the order of the dictionary literal (its keys are distinct). Four
  keys are mapped to \<open>None\<close>; \<open>dict.get\<close> also answers \<open>None\<close> for a missing key.
\<close>

definition level_mapping :: "(ustr \<times> ustr option) list" where
  "level_mapping =
     [([0x31], Some [0x4E00, 0x7EA7]),
      ([0x32], Some [0x4E8C, 0x7EA7]),
      ([0x33], Some [0x4E09, 0x7EA7]),
      ([0x34], Some [0x56DB, 0x7EA7]),
      ([0x35], Some [0x4E94, 0x7EA7]),
      ([0x4E00, 0x7EA7], Some [0x4E00, 0x7EA7]),
      ([0x4E8C, 0x7EA7], Some [0x4E8C, 0x7EA7]),
      ([0x4E09, 0x7EA7], Some [0x4E09, 0x7EA7]),
      ([0x56DB, 0x7EA7], Some [0x56DB, 0x7EA7]),
      ([0x4E94, 0x7EA7], Some [0x4E94, 0x7EA7]),
      ([0x31, 0x7EA7], Some [0x4E00, 0x7EA7]),
      ([0x32, 0x7EA7], Some [0x4E8C, 0x7EA7]),
      ([0x33, 0x7EA7], Some [0x4E09, 0x7EA7]),
      ([0x34, 0x7EA7], Some [0x56DB, 0x7EA7]),
      ([0x35, 0x7EA7], Some [0x4E94, 0x7EA7]),
      ([0x49], Some [0x4E00, 0x7EA7]),
      ([0x49, 0x49], Some [0x4E8C, 0x7EA7]),
      ([0x49, 0x49, 0x49], Some [0x4E09, 0x7EA7]),
      ([0x49, 0x56], Some [0x56DB, 0x7EA7]),
      ([0x56], Some [0x4E94, 0x7EA7]),
      ([0x672A, 0x77E5], None),
      ([0x4E, 0x2F, 0x41], None),
      ([0x6E, 0x75, 0x6C, 0x6C], None),
      ([], None)]"

definition dict_get :: "('k \<times> 'v option) list \<Rightarrow> 'k \<Rightarrow> 'v option" where
  "dict_get d k = (case map_of d k of None \<Rightarrow> None | Some v \<Rightarrow> v)"

text \<open>The five canonical grades, the values of \<open>level_mapping\<close> other than \<open>None\<close>.\<close>

definition canonical_grades :: "ustr list" where
  "canonical_grades =
     [[0x4E00, 0x7EA7], [0x4E8C, 0x7EA7], [0x4E09, 0x7EA7], [0x56DB, 0x7EA7], [0x4E94, 0x7EA7]]"

text \<open>
  \<open>normalize_energy_level\<close>: \<open>None\<close>, the empty string and every object that is not a
  \<open>str\<close> give \<open>None\<close>; otherwise the level is stripped, the characters that are neither
  word characters nor Chinese are removed, and the rest is looked up.
\<close>

definition clean_level :: "runtime \<Rightarrow> ustr \<Rightarrow> ustr" where
  "clean_level rt level = filter (\<lambda>c. py_isword rt c \<or> is_chinese c) (py_strip level)"

definition normalize_energy_level :: "runtime \<Rightarrow> pyval \<Rightarrow> ustr option" where
  "normalize_energy_level rt level =
     (case level of
        PyStr s \<Rightarrow> if s = [] then None else dict_get level_mapping (clean_level rt s)
      | _ \<Rightarrow> None)"

text \<open>Python's \<open>not x\<close> for a value that is \<open>None\<close> or a string.\<close>

definition py_not :: "ustr option \<Rightarrow> bool" where
  "py_not x \<longleftrightarrow> x = None \<or> x = Some []"

definition compare_energy_levels :: "runtime \<Rightarrow> pyval \<Rightarrow> pyval \<Rightarrow> ustr" where
  "compare_energy_levels rt excel_level search_level =
     (let normalized_excel = normalize_energy_level rt excel_level;
          normalized_search = normalize_energy_level rt search_level
      in if py_not normalized_search then v_not_found
         else if py_not normalized_excel then v_excel_missing
         else if normalized_excel = normalized_search then v_correct
         else v_incorrect)"

definition calculate_similarity_score :: "runtime \<Rightarrow> ustr \<Rightarrow> ustr \<Rightarrow> real" where
  "calculate_similarity_score rt model1 model2 =
     (if model1 = [] \<or> model2 = [] then 0
      else sm_ratio rt (py_lower rt model1) (py_lower rt model2))"

text \<open>The operator \<open>sub in s\<close> on strings.\<close>

fun py_in :: "ustr \<Rightarrow> ustr \<Rightarrow> bool" where
  "py_in sub [] \<longleftrightarrow> sub = []"
| "py_in sub (c # cs) \<longleftrightarrow> startswith (c # cs) sub \<or> py_in sub cs"

definition priority_brands :: "ustr list" where
  "priority_brands =
     [[0x683C, 0x529B], [0x5965, 0x514B, 0x65AF], [0x7F8E, 0x7684], [0x54, 0x43, 0x4C],
      [0x6D77, 0x5C14], [0x5FD7, 0x9AD8], [0x6D77, 0x4FE1], [0x957F, 0x8679], [0x79D1, 0x9F99],
      [0x5BB9, 0x58F0], [0x6625, 0x5170], [0x65B0, 0x79D1], [0x534E, 0x51CC],
      [0x5C0F, 0x5929, 0x9E45], [0x7EDF, 0x5E05], [0x5361, 0x8428, 0x5E1D], [0x7F8E, 0x83F1],
      [0x521B, 0x7EF4], [0x5EB7, 0x4F73], [0x590F, 0x666E], [0x677E, 0x4E0B], [0x4E09, 0x83F1],
      [0x5927, 0x91D1], [0x65E5, 0x7ACB], [0x4E1C, 0x829D], [0x4C, 0x47],
      [0x53, 0x41, 0x4D, 0x53, 0x55, 0x4E, 0x47], [0x4E09, 0x661F], [0x53, 0x4F, 0x4E, 0x59],
      [0x7D22, 0x5C3C], [0x50, 0x48, 0x49, 0x4C, 0x49, 0x50, 0x53], [0x98DE, 0x5229, 0x6D66],
      [0x53, 0x49, 0x45, 0x4D, 0x45, 0x4E, 0x53], [0x897F, 0x95E8, 0x5B50],
      [0x42, 0x4F, 0x53, 0x43, 0x48], [0x535A, 0x4E16],
      [0x57, 0x48, 0x49, 0x52, 0x4C, 0x50, 0x4F, 0x4F, 0x4C], [0x60E0, 0x800C, 0x6D66],
      [0x7EA6, 0x514B], [0x59, 0x4F, 0x52, 0x4B], [0x5F00, 0x5229],
      [0x43, 0x41, 0x52, 0x52, 0x49, 0x45, 0x52], [0x7279, 0x7075],
      [0x54, 0x52, 0x41, 0x4E, 0x45], [0x9EA6, 0x514B, 0x7EF4, 0x5C14],
      [0x987F, 0x6C49, 0x5E03, 0x4EC0], [0x514B, 0x83B1, 0x95E8, 0x7279], [0x76FE, 0x5B89],
      [0x7533, 0x83F1], [0x6B27, 0x79D1], [0x5929, 0x52A0]]"

definition company_patterns :: "pattern list" where
  "company_patterns = [CompanyChinese, CompanyEnglish, CompanyShort]"

definition generic_words :: "ustr list" where
  "generic_words =
     [[0x6709, 0x9650], [0x80A1, 0x4EFD], [0x7535, 0x5668], [0x7A7A, 0x8C03], [0x5236, 0x51B7],
      [0x79D1, 0x6280]]"

definition model_prefixes :: "ustr list" where
  "model_prefixes =
     [[0x4B, 0x46, 0x52], [0x4B, 0x46], [0x52, 0x46], [0x47, 0x52], [0x42, 0x43, 0x44],
      [0x58, 0x51, 0x47]]"

text \<open>The loop over \<open>company_patterns\<close>: the first match whose group is not a generic word.\<close>

fun first_company :: "runtime \<Rightarrow> pattern list \<Rightarrow> ustr \<Rightarrow> ustr option" where
  "first_company rt [] s = None"
| "first_company rt (p # ps) s =
     (case re_group1 rt p s of
        Some extracted_brand \<Rightarrow>
          if extracted_brand \<notin> set generic_words then Some extracted_brand
          else first_company rt ps s
      | None \<Rightarrow> first_company rt ps s)"

definition is_upper :: "nat \<Rightarrow> bool" where
  "is_upper c \<longleftrightarrow> 0x41 \<le> c \<and> c \<le> 0x5A"

definition is_letter :: "nat \<Rightarrow> bool" where
  "is_letter c \<longleftrightarrow> (0x41 \<le> c \<and> c \<le> 0x5A) \<or> (0x61 \<le> c \<and> c \<le> 0x7A)"

text \<open>
  \<open>re.match('^([A-Z][A-Za-z]+)', s)\<close>: a capital letter and the longest run of letters
  after it, which must not be empty.
\<close>

definition english_prefix :: "ustr \<Rightarrow> ustr option" where
  "english_prefix s =
     (case s of
        [] \<Rightarrow> None
      | c # cs \<Rightarrow>
          if is_upper c \<and> takeWhile is_letter cs \<noteq> [] then Some (c # takeWhile is_letter cs)
          else None)"

definition extract_brand_from_model :: "runtime \<Rightarrow> ustr \<Rightarrow> ustr" where
  "extract_brand_from_model rt model =
     (if model = [] then []
      else
        let model_clean = py_strip model;
            model_lower = py_lower rt model_clean
        in case find (\<lambda>brand. py_in brand model_clean \<or> py_in (py_lower rt brand) model_lower)
                  priority_brands of
             Some brand \<Rightarrow> brand
           | None \<Rightarrow>
              (case first_company rt company_patterns model_clean of
                 Some extracted_brand \<Rightarrow> extracted_brand
               | None \<Rightarrow>
                  let prefix = takeWhile is_chinese model_clean
                  in if prefix \<noteq> [] \<and> 2 \<le> length prefix \<and> length prefix \<le> 4 then prefix
                     else (case english_prefix model_clean of
                             Some p \<Rightarrow> if p \<notin> set model_prefixes then p else []
                           | None \<Rightarrow> [])))"

definition brand_aliases :: "(ustr \<times> ustr list) list" where
  "brand_aliases =
     [([0x683C, 0x529B],
        [[0x47, 0x52, 0x45, 0x45], [0x67, 0x72, 0x65, 0x65], [0x73E0, 0x6D77, 0x683C, 0x529B], [0x683C, 0x529B, 0x7535, 0x5668]]),
      ([0x7F8E, 0x7684],
        [[0x4D, 0x49, 0x44, 0x45, 0x41], [0x6D, 0x69, 0x64, 0x65, 0x61], [0x7F8E, 0x7684, 0x96C6, 0x56E2], [0x7F8E, 0x7684, 0x7535, 0x5668]]),
      ([0x6D77, 0x5C14],
        [[0x48, 0x41, 0x49, 0x45, 0x52], [0x68, 0x61, 0x69, 0x65, 0x72], [0x6D77, 0x5C14, 0x96C6, 0x56E2], [0x9752, 0x5C9B, 0x6D77, 0x5C14]]),
      ([0x5965, 0x514B, 0x65AF],
        [[0x41, 0x55, 0x58], [0x61, 0x75, 0x78], [0x5965, 0x514B, 0x65AF, 0x96C6, 0x56E2]]),
      ([0x5FD7, 0x9AD8],
        [[0x43, 0x48, 0x49, 0x47, 0x4F], [0x63, 0x68, 0x69, 0x67, 0x6F], [0x5FD7, 0x9AD8, 0x7A7A, 0x8C03]]),
      ([0x54, 0x43, 0x4C],
        [[0x74, 0x63, 0x6C], [0x54, 0x43, 0x4C, 0x96C6, 0x56E2], [0x54, 0x43, 0x4C, 0x7535, 0x5668]]),
      ([0x6D77, 0x4FE1],
        [[0x48, 0x49, 0x53, 0x45, 0x4E, 0x53, 0x45], [0x68, 0x69, 0x73, 0x65, 0x6E, 0x73, 0x65], [0x6D77, 0x4FE1, 0x96C6, 0x56E2]]),
      ([0x957F, 0x8679],
        [[0x43, 0x48, 0x41, 0x4E, 0x47, 0x48, 0x4F, 0x4E, 0x47], [0x63, 0x68, 0x61, 0x6E, 0x67, 0x68, 0x6F, 0x6E, 0x67], [0x56DB, 0x5DDD, 0x957F, 0x8679]]),
      ([0x79D1, 0x9F99],
        [[0x4B, 0x45, 0x4C, 0x4F, 0x4E], [0x6B, 0x65, 0x6C, 0x6F, 0x6E], [0x6D77, 0x4FE1, 0x79D1, 0x9F99]]),
      ([0x5BB9, 0x58F0],
        [[0x52, 0x4F, 0x4E, 0x53, 0x48, 0x45, 0x4E], [0x72, 0x6F, 0x6E, 0x73, 0x68, 0x65, 0x6E]]),
      ([0x534E, 0x51CC],
        [[0x57, 0x41, 0x48, 0x49, 0x4E], [0x77, 0x61, 0x68, 0x69, 0x6E]]),
      ([0x5361, 0x8428, 0x5E1D],
        [[0x43, 0x41, 0x53, 0x41, 0x52, 0x54, 0x45], [0x63, 0x61, 0x73, 0x61, 0x72, 0x74, 0x65]]),
      ([0x7EDF, 0x5E05],
        [[0x4C, 0x45, 0x41, 0x44, 0x45, 0x52], [0x6C, 0x65, 0x61, 0x64, 0x65, 0x72]]),
      ([0x5C0F, 0x5929, 0x9E45],
        [[0x4C, 0x49, 0x54, 0x54, 0x4C, 0x45, 0x53, 0x57, 0x41, 0x4E], [0x6C, 0x69, 0x74, 0x74, 0x6C, 0x65, 0x73, 0x77, 0x61, 0x6E]]),
      ([0x4E09, 0x661F],
        [[0x53, 0x41, 0x4D, 0x53, 0x55, 0x4E, 0x47], [0x73, 0x61, 0x6D, 0x73, 0x75, 0x6E, 0x67]]),
      ([0x677E, 0x4E0B],
        [[0x50, 0x41, 0x4E, 0x41, 0x53, 0x4F, 0x4E, 0x49, 0x43], [0x70, 0x61, 0x6E, 0x61, 0x73, 0x6F, 0x6E, 0x69, 0x63]]),
      ([0x4E09, 0x83F1],
        [[0x4D, 0x49, 0x54, 0x53, 0x55, 0x42, 0x49, 0x53, 0x48, 0x49], [0x6D, 0x69, 0x74, 0x73, 0x75, 0x62, 0x69, 0x73, 0x68, 0x69]]),
      ([0x5927, 0x91D1],
        [[0x44, 0x41, 0x49, 0x4B, 0x49, 0x4E], [0x64, 0x61, 0x69, 0x6B, 0x69, 0x6E]]),
      ([0x897F, 0x95E8, 0x5B50],
        [[0x53, 0x49, 0x45, 0x4D, 0x45, 0x4E, 0x53], [0x73, 0x69, 0x65, 0x6D, 0x65, 0x6E, 0x73]]),
      ([0x535A, 0x4E16],
        [[0x42, 0x4F, 0x53, 0x43, 0x48], [0x62, 0x6F, 0x73, 0x63, 0x68]]),
      ([0x60E0, 0x800C, 0x6D66],
        [[0x57, 0x48, 0x49, 0x52, 0x4C, 0x50, 0x4F, 0x4F, 0x4C], [0x77, 0x68, 0x69, 0x72, 0x6C, 0x70, 0x6F, 0x6F, 0x6C]])]"

text \<open>
  The first two tests of \<open>brands_similar\<close>, which decide by the alias table: the two brands
  are equal in lower case, or both belong to one row of \<open>brand_aliases\<close>.
\<close>

definition in_family :: "runtime \<Rightarrow> ustr \<Rightarrow> ustr \<times> ustr list \<Rightarrow> bool" where
  "in_family rt brand_lower row \<longleftrightarrow>
     brand_lower = py_lower rt (fst row) \<or> brand_lower \<in> set (map (py_lower rt) (snd row))"

definition alias_equivalent :: "runtime \<Rightarrow> ustr \<Rightarrow> ustr \<Rightarrow> bool" where
  "alias_equivalent rt brand1 brand2 \<longleftrightarrow>
     (let brand1_lower = py_lower rt brand1; brand2_lower = py_lower rt brand2
      in brand1_lower = brand2_lower \<or>
         list_ex (\<lambda>row. in_family rt brand1_lower row \<and> in_family rt brand2_lower row)
           brand_aliases)"

definition brands_similar :: "runtime \<Rightarrow> ustr \<Rightarrow> ustr \<Rightarrow> bool" where
  "brands_similar rt brand1 brand2 \<longleftrightarrow>
     (if brand1 = [] \<or> brand2 = [] then False
      else if alias_equivalent rt brand1 brand2 then True
      else if py_in (py_lower rt brand1) (py_lower rt brand2) \<or>
              py_in (py_lower rt brand2) (py_lower rt brand1) then True
      else 0.8 < calculate_similarity_score rt brand1 brand2)"

definition power_patterns :: "pattern list" where
  "power_patterns = [PowerKfrGw, PowerGw, PowerKfr]"

fun first_group :: "runtime \<Rightarrow> pattern list \<Rightarrow> ustr \<Rightarrow> ustr" where
  "first_group rt [] s = []"
| "first_group rt (p # ps) s =
     (case re_group1 rt p s of Some g \<Rightarrow> g | None \<Rightarrow> first_group rt ps s)"

definition extract_power_spec :: "runtime \<Rightarrow> ustr \<Rightarrow> ustr" where
  "extract_power_spec rt model = first_group rt power_patterns model"

text \<open>
  A candidate record, as \<open>extract_energy_levels\<close> builds it: every key is present and every
  value is a string.
\<close>

record candidate =
  model :: ustr
  energy_level :: ustr
  producer :: ustr
  record_number :: ustr
  product_type :: ustr
  announcement_time :: ustr

definition tier2_brands :: "ustr list" where
  "tier2_brands = [[0x5965, 0x514B, 0x65AF], [0x7F8E, 0x7684], [0x54, 0x43, 0x4C]]"

definition kfr :: ustr where "kfr = [0x4B, 0x46, 0x52]"

text \<open>
  The additions of \<open>score_match\<close>, one definition for each numbered step. Scores are Python
  floats; they are modelled as reals.
\<close>

definition containment_bonus :: "ustr \<Rightarrow> ustr \<Rightarrow> ustr \<Rightarrow> real" where
  "containment_bonus original_model extracted_model candidate_model =
     (if py_in candidate_model original_model \<or> py_in original_model candidate_model
      then 10 else 0) +
     (if py_in candidate_model extracted_model \<or> py_in extracted_model candidate_model
      then 8 else 0)"

definition brand_bonus :: "runtime \<Rightarrow> ustr \<Rightarrow> ustr \<Rightarrow> real" where
  "brand_bonus rt original_brand candidate_brand =
     (if original_brand \<noteq> [] \<and> candidate_brand \<noteq> [] then
        (if original_brand = brand_gree \<and> brands_similar rt original_brand candidate_brand
         then 20
         else if original_brand \<in> set tier2_brands \<and>
                 brands_similar rt original_brand candidate_brand
         then 18
         else if original_brand = candidate_brand then 15
         else if brands_similar rt original_brand candidate_brand then 12
         else 0)
      else if original_brand = [] \<and> candidate_brand \<noteq> [] then 3
      else 0)"

definition completeness_bonus :: "candidate \<Rightarrow> real" where
  "completeness_bonus c =
     (if energy_level c \<noteq> [] then 2 else 0) + (if producer c \<noteq> [] then 2 else 0) +
     (if record_number c \<noteq> [] then 1 else 0)"

definition score_match :: "runtime \<Rightarrow> ustr \<Rightarrow> ustr \<Rightarrow> candidate \<Rightarrow> real" where
  "score_match rt original_model extracted_model c =
     (let candidate_model = model c;
          candidate_producer = producer c
      in if candidate_model = original_model then 100
         else if candidate_model = extracted_model then 95
         else
           let similarity_original =
                 calculate_similarity_score rt original_model candidate_model;
               similarity_extracted =
                 calculate_similarity_score rt extracted_model candidate_model;
               max_similarity = max similarity_original similarity_extracted;
               original_brand = extract_brand_from_model rt original_model;
               candidate_brand_from_producer = extract_brand_from_model rt candidate_producer;
               candidate_brand_from_model = extract_brand_from_model rt candidate_model;
               candidate_brand =
                 (if candidate_brand_from_producer \<noteq> [] then candidate_brand_from_producer
                  else candidate_brand_from_model);
               original_power = extract_power_spec rt original_model;
               candidate_power = extract_power_spec rt candidate_model;
               score =
                 max_similarity * 90 +
                 containment_bonus original_model extracted_model candidate_model +
                 brand_bonus rt original_brand candidate_brand +
                 (if py_in kfr original_model \<and> py_in kfr candidate_model then 8 else 0) +
                 (if original_power \<noteq> [] \<and> candidate_power \<noteq> [] \<and>
                     original_power = candidate_power then 12 else 0) +
                 completeness_bonus c
           in min score 100)"

text \<open>
  \<open>find_best_match\<close>. The argument is the dictionary \<open>search_result\<close>; the key
  \<open>extracted_model\<close> may be missing. Besides the record it returns, the function prints;
  the model returns what is printed as a list of events, so that the scores computed and the
  warning of a low score are part of the result. With several candidates the model ranks
  them by the real-valued scores; the code ranks the floats, which can order two candidates
  of nearly equal score the other way. The branch for one candidate computes no score.
\<close>

record search_summary =
  search_success :: bool
  energy_levels :: "candidate list"
  extracted_model :: "ustr option"

datatype event =
    LowScoreWarning real
  | BestMatch ustr real
  | CandidateScore nat ustr real

definition sort_by_score :: "(real \<times> candidate) list \<Rightarrow> (real \<times> candidate) list" where
  "sort_by_score scored = sort_key (\<lambda>x. - fst x) scored"

definition find_best_match ::
  "runtime \<Rightarrow> search_summary \<Rightarrow> ustr \<Rightarrow> candidate option \<times> event list" where
  "find_best_match rt search_result original_model =
     (if \<not> search_success search_result \<or> energy_levels search_result = [] then (None, [])
      else
        let levels = energy_levels search_result;
            extracted =
              (case extracted_model search_result of Some e \<Rightarrow> e | None \<Rightarrow> original_model)
        in if length levels = 1 then (Some (hd levels), [])
           else
             let scored_candidates =
                   sort_by_score (map (\<lambda>c. (score_match rt original_model extracted c, c)) levels);
                 best_score = fst (hd scored_candidates);
                 best_match = snd (hd scored_candidates)
             in (Some best_match,
                 (if best_score < 30 then [LowScoreWarning best_score] else []) @
                 [BestMatch (model best_match) best_score] @
                 map (\<lambda>(i, (score, c)). CandidateScore i (model c) score)
                   (zip [1 ..< 4] (take 3 scored_candidates))))"

section \<open>anti\_crawler.py\<close>

text \<open>
  A record of the list that the search answers. The level \<open>nxLever\<close> may be missing or
  null, a string, or a number; the other fields are strings (a missing one reads as the
  empty string).
\<close>

datatype level_value = LevelMissing | LevelStr ustr | LevelInt int

record raw_record =
  nxLever :: level_value
  productModel :: ustr
  producerName :: ustr
  registrationNumber :: ustr
  productType :: ustr
  announcementTime :: ustr

text \<open>
  What \<open>search_product\<close> returns: \<open>None\<close>, a dictionary without the key \<open>list\<close>, or a
  dictionary with the list of records.
\<close>

datatype search_result = NoResult | NoList | Records "raw_record list"

text \<open>\<open>str(n)\<close> for an integer.\<close>

fun digits :: "nat \<Rightarrow> ustr" where
  "digits n = (if n < 10 then [0x30 + n] else digits (n div 10) @ [0x30 + n mod 10])"

definition str_int :: "int \<Rightarrow> ustr" where
  "str_int i = (if i < 0 then 0x2D # digits (nat (- i)) else digits (nat i))"

definition level_truthy :: "level_value \<Rightarrow> bool" where
  "level_truthy v = (case v of LevelMissing \<Rightarrow> False | LevelStr s \<Rightarrow> s \<noteq> [] | LevelInt i \<Rightarrow> i \<noteq> 0)"

definition level_str :: "level_value \<Rightarrow> ustr" where
  "level_str v = (case v of LevelMissing \<Rightarrow> [] | LevelStr s \<Rightarrow> s | LevelInt i \<Rightarrow> str_int i)"

definition level_map :: "(ustr \<times> ustr) list" where
  "level_map =
     [([0x31], [0x4E00, 0x7EA7]), ([0x32], [0x4E8C, 0x7EA7]), ([0x33], [0x4E09, 0x7EA7]),
      ([0x34], [0x56DB, 0x7EA7]), ([0x35], [0x4E94, 0x7EA7])]"

definition to_candidate :: "raw_record \<Rightarrow> candidate" where
  "to_candidate r =
     \<lparr>model = productModel r,
      energy_level =
        (case map_of level_map (level_str (nxLever r)) of
           Some chinese_level \<Rightarrow> chinese_level
         | None \<Rightarrow> level_str (nxLever r)),
      producer = producerName r,
      record_number = registrationNumber r,
      product_type = productType r,
      announcement_time = announcementTime r\<rparr>"

text \<open>Comparison of strings, by code points.\<close>

fun str_less :: "ustr \<Rightarrow> ustr \<Rightarrow> bool" where
  "str_less [] [] \<longleftrightarrow> False"
| "str_less [] (y # ys) \<longleftrightarrow> True"
| "str_less (x # xs) [] \<longleftrightarrow> False"
| "str_less (x # xs) (y # ys) \<longleftrightarrow> x < y \<or> (x = y \<and> str_less xs ys)"

definition compare_time_strings :: "ustr \<Rightarrow> ustr \<Rightarrow> int" where
  "compare_time_strings time1 time2 =
     (if time1 = [] \<and> time2 = [] then 0
      else if time1 = [] then - 1
      else if time2 = [] then 1
      else if str_less time2 time1 then 1
      else if str_less time1 time2 then - 1
      else 0)"

text \<open>The loop of \<open>_get_latest_record\<close> over \<open>records[1:]\<close>, from \<open>records[0]\<close>.\<close>

fun latest_from :: "candidate \<Rightarrow> candidate list \<Rightarrow> candidate" where
  "latest_from latest_record [] = latest_record"
| "latest_from latest_record (r # rs) =
     (if 0 < compare_time_strings (announcement_time r) (announcement_time latest_record)
      then latest_from r rs
      else latest_from latest_record rs)"

text \<open>
  \<open>model_groups\<close> is a dictionary from a model to the list of its records; a dictionary
  keeps its keys in the order of their insertion, and is modelled as an association list.
  A list of the dictionary is created with its first record, so it is never empty: it is
  kept as its first record and the list of the later ones.
\<close>

fun add_to_group ::
  "(ustr \<times> candidate \<times> candidate list) list \<Rightarrow> candidate \<Rightarrow>
   (ustr \<times> candidate \<times> candidate list) list" where
  "add_to_group [] r = [(model r, r, [])]"
| "add_to_group ((m, r0, g) # gs) r =
     (if m = model r then (m, r0, g @ [r]) # gs else (m, r0, g) # add_to_group gs r)"

definition model_groups :: "candidate list \<Rightarrow> (ustr \<times> candidate \<times> candidate list) list" where
  "model_groups records = foldl add_to_group [] records"

text \<open>A group of one record gives that record, a longer one the latest of its records.\<close>

definition pick_record :: "ustr \<times> candidate \<times> candidate list \<Rightarrow> candidate" where
  "pick_record mg =
     (case mg of (m, r0, g) \<Rightarrow> if g = [] then r0 else latest_from r0 g)"

definition filter_latest_records :: "candidate list \<Rightarrow> candidate list" where
  "filter_latest_records records =
     (if records = [] then [] else map pick_record (model_groups records))"

definition extract_energy_levels :: "search_result \<Rightarrow> candidate list" where
  "extract_energy_levels sr =
     (case sr of
        Records rs \<Rightarrow>
          filter_latest_records (map to_candidate (filter (\<lambda>r. level_truthy (nxLever r)) rs))
      | _ \<Rightarrow> [])"

section \<open>relevance\_checker.py\<close>

definition product_categories :: "(ustr \<times> ustr list) list" where
  "product_categories =
     [([0x7A7A, 0x8C03],
        [[0x7A7A, 0x8C03], [0x4B, 0x46, 0x52], [0x4B, 0x46], [0x47, 0x4D, 0x56], [0x5236, 0x51B7], [0x53D8, 0x9891]]),
      ([0x51B0, 0x7BB1],
        [[0x51B0, 0x7BB1], [0x42, 0x43, 0x44], [0x51B7, 0x85CF], [0x51B7, 0x51BB], [0x53CC, 0x95E8], [0x4E09, 0x95E8]]),
      ([0x6D17, 0x8863, 0x673A],
        [[0x6D17, 0x8863, 0x673A], [0x58, 0x51, 0x47], [0x6EDA, 0x7B52], [0x6CE2, 0x8F6E], [0x5168, 0x81EA, 0x52A8]]),
      ([0x70ED, 0x6C34, 0x5668],
        [[0x70ED, 0x6C34, 0x5668], [0x4A, 0x53, 0x51], [0x4A, 0x53, 0x47], [0x71C3, 0x6C14], [0x7535, 0x70ED]]),
      ([0x6CB9, 0x70DF, 0x673A],
        [[0x6CB9, 0x70DF, 0x673A], [0x43, 0x58, 0x57], [0x62BD, 0x6CB9, 0x70DF, 0x673A], [0x5438, 0x6CB9, 0x70DF, 0x673A]]),
      ([0x71C3, 0x6C14, 0x7076],
        [[0x71C3, 0x6C14, 0x7076], [0x4A, 0x5A, 0x54], [0x4A, 0x5A], [0x7076, 0x5177]]),
      ([0x7535, 0x89C6],
        [[0x7535, 0x89C6], [0x6DB2, 0x6676], [0x4C, 0x45, 0x44], [0x4F, 0x4C, 0x45, 0x44], [0x667A, 0x80FD, 0x7535, 0x89C6]]),
      ([0x5438, 0x5C18, 0x5668],
        [[0x5438, 0x5C18, 0x5668], [0x9664, 0x5C18, 0x5668], [0x6E05, 0x6D01, 0x5668]]),
      ([0x51C0, 0x5316, 0x5668],
        [[0x51C0, 0x5316, 0x5668], [0x7A7A, 0x6C14, 0x51C0, 0x5316], [0x9664, 0x7532, 0x919B]]),
      ([0x5FAE, 0x6CE2, 0x7089],
        [[0x5FAE, 0x6CE2, 0x7089], [0x5149, 0x6CE2, 0x7089]]),
      ([0x7535, 0x78C1, 0x7089],
        [[0x7535, 0x78C1, 0x7089], [0x7535, 0x9676, 0x7089]]),
      ([0x8C46, 0x6D46, 0x673A],
        [[0x8C46, 0x6D46, 0x673A], [0x7834, 0x58C1, 0x673A]]),
      ([0x7535, 0x996D, 0x7172],
        [[0x7535, 0x996D, 0x7172], [0x7535, 0x996D, 0x9505], [0x667A, 0x80FD, 0x7172]]),
      ([0x6905, 0x5B50],
        [[0x6905], [0x5EA7, 0x6905], [0x529E, 0x516C, 0x6905], [0x7535, 0x8111, 0x6905], [0x8F6C, 0x6905]])]"

definition unknown_category :: ustr where "unknown_category = [0x672A, 0x77E5]"

fun first_category :: "runtime \<Rightarrow> (ustr \<times> ustr list) list \<Rightarrow> ustr \<Rightarrow> ustr" where
  "first_category rt [] model_lower = unknown_category"
| "first_category rt ((category, keywords) # rest) model_lower =
     (if list_ex (\<lambda>keyword. py_in (py_lower rt keyword) model_lower) keywords then category
      else first_category rt rest model_lower)"

definition extract_product_category :: "runtime \<Rightarrow> ustr \<Rightarrow> ustr" where
  "extract_product_category rt m = first_category rt product_categories (py_lower rt m)"

definition calculate_text_similarity :: "runtime \<Rightarrow> ustr \<Rightarrow> ustr \<Rightarrow> real" where
  "calculate_text_similarity rt text1 text2 =
     (if text1 = [] \<or> text2 = [] then 0 else sm_ratio rt text1 text2)"

definition extract_chinese_part :: "ustr \<Rightarrow> ustr" where
  "extract_chinese_part m = filter is_chinese m"

definition relevance_brands :: "ustr list" where
  "relevance_brands =
     [[0x683C, 0x529B], [0x7F8E, 0x7684], [0x6D77, 0x5C14], [0x5965, 0x514B, 0x65AF],
      [0x5FD7, 0x9AD8], [0x6625, 0x5170], [0x79D1, 0x9F99], [0x5C0F, 0x7C73], [0x7C73, 0x5BB6],
      [0x534E, 0x4E3A], [0x8363, 0x8000], [0x82F9, 0x679C], [0x4E09, 0x661F], [0x7D22, 0x5C3C],
      [0x6D77, 0x4FE1], [0x521B, 0x7EF4], [0x54, 0x43, 0x4C], [0x957F, 0x8679],
      [0x5EB7, 0x4F73], [0x98DE, 0x5229, 0x6D66], [0x897F, 0x95E8, 0x5B50], [0x535A, 0x4E16],
      [0x677E, 0x4E0B], [0x4E1C, 0x829D], [0x590F, 0x666E], [0x4C, 0x47]]"

definition extract_brand_info :: "runtime \<Rightarrow> ustr \<Rightarrow> ustr" where
  "extract_brand_info rt m =
     (case find (\<lambda>brand. py_in brand m \<or> py_in (py_lower rt brand) (py_lower rt m))
             relevance_brands of
        Some brand \<Rightarrow> brand
      | None \<Rightarrow> [])"

definition is_chinese_with_number :: "runtime \<Rightarrow> ustr \<Rightarrow> bool" where
  "is_chinese_with_number rt m \<longleftrightarrow>
     (let clean_model = filter (\<lambda>c. is_chinese c \<or> py_isword rt c) m;
          has_chinese = list_ex is_chinese clean_model;
          has_number = list_ex (py_isdigit rt) clean_model;
          chinese_count = length (filter is_chinese clean_model);
          total_count = length clean_model
      in if total_count = 0 then False
         else has_chinese \<and> has_number \<and> real chinese_count / real total_count > 0.5)"

definition check_chinese_model_relevance :: "runtime \<Rightarrow> ustr \<Rightarrow> ustr \<Rightarrow> bool" where
  "check_chinese_model_relevance rt original matched \<longleftrightarrow>
     \<not> calculate_text_similarity rt (extract_chinese_part original)
          (extract_chinese_part matched) < 0.3"

text \<open>
  \<open>is_relevant_match\<close> answers a truth value and prints which check decided. The model
  computes the deciding check, \<open>relevance_verdict\<close>, and the truth value from it.
\<close>

datatype relevance =
    Relevant
  | CategoryMismatch
  | ChineseMismatch
  | BrandMismatch
  | ProducerMismatch
  | SimilarityTooLow

definition category_conflict :: "runtime \<Rightarrow> ustr \<Rightarrow> ustr \<Rightarrow> bool" where
  "category_conflict rt original matched \<longleftrightarrow>
     (let original_category = extract_product_category rt original;
          matched_category = extract_product_category rt matched
      in original_category \<noteq> unknown_category \<and> matched_category \<noteq> unknown_category \<and>
         original_category \<noteq> matched_category)"

definition relevance_verdict :: "runtime \<Rightarrow> ustr \<Rightarrow> ustr \<Rightarrow> ustr \<Rightarrow> ustr \<Rightarrow> relevance" where
  "relevance_verdict rt original matched original_producer matched_producer =
     (if category_conflict rt original matched then CategoryMismatch
      else if is_chinese_with_number rt original then
        (if check_chinese_model_relevance rt original matched then Relevant
         else ChineseMismatch)
      else
        let original_brand = extract_brand_info rt original;
            matched_brand = extract_brand_info rt matched
        in if original_brand \<noteq> [] \<and> matched_brand \<noteq> [] \<and> original_brand \<noteq> matched_brand
           then BrandMismatch
           else if original_producer \<noteq> [] \<and> matched_producer \<noteq> [] \<and>
                   calculate_text_similarity rt original_producer matched_producer < 0.3
           then ProducerMismatch
           else if calculate_text_similarity rt original matched < 0.2 then SimilarityTooLow
           else Relevant)"

definition is_relevant_match :: "runtime \<Rightarrow> ustr \<Rightarrow> ustr \<Rightarrow> ustr \<Rightarrow> ustr \<Rightarrow> bool" where
  "is_relevant_match rt original matched original_producer matched_producer \<longleftrightarrow>
     relevance_verdict rt original matched original_producer matched_producer = Relevant"

text \<open>
  \<open>perform_relevance_check\<close> works on a data frame. A row is modelled by the four columns
  the function reads or writes, all of them strings, and the frame by the list of its rows,
  each with its index label. The function writes with \<open>results_df.at[index, column]\<close>, that
  is by label: for a label that one row carries this is one cell, and for a label that
  several rows carry pandas writes to each of them. Whether \<open>iterrows\<close> gives a row as it
  was when the loop began or as it is when the loop reaches it depends on the frame; the
  parameter \<open>live\<close> chooses the second reading.
\<close>

record frame_row =
  col_result :: ustr
  col_model :: ustr
  col_matched :: ustr
  col_details :: ustr

definition msg_irrelevant_frame :: ustr where
  "msg_irrelevant_frame = 
     [0x4EA7, 0x54C1, 0x4E0D, 0x76F8, 0x5173, 0xFF0C, 0x539F, 0x59CB, 0x641C,
      0x7D22, 0x65E0, 0x6548, 0x3A, 0x20]"

type_synonym frame = "(int \<times> frame_row) list"

definition at_write :: "int \<Rightarrow> ustr \<Rightarrow> ustr \<Rightarrow> frame \<Rightarrow> frame" where
  "at_write index verdict info df =
     map (\<lambda>lr. if fst lr = index
               then (fst lr, (snd lr)\<lparr>col_result := verdict, col_details := info\<rparr>)
               else lr) df"

text \<open>
  The loop over \<open>results_df.iterrows()\<close>: \<open>pos\<close> is the position of the row the loop has
  reached, the first list holds the rows still to visit, as they were when the loop began,
  and the second list is the frame as it is now.
\<close>

fun check_rows :: "runtime \<Rightarrow> bool \<Rightarrow> nat \<Rightarrow> frame \<Rightarrow> frame \<Rightarrow> frame" where
  "check_rows rt live pos [] df = df"
| "check_rows rt live pos ((index, old_row) # rest) df =
     (let row = (if live then snd (df ! pos) else old_row) in
      if col_result row = v_incorrect \<and>
         \<not> is_relevant_match rt (col_model row) (col_matched row) [] []
      then check_rows rt live (Suc pos) rest
             (at_write index v_not_found (msg_irrelevant_frame @ col_model row) df)
      else check_rows rt live (Suc pos) rest df)"

definition perform_relevance_check :: "runtime \<Rightarrow> bool \<Rightarrow> frame \<Rightarrow> frame" where
  "perform_relevance_check rt live results_df = check_rows rt live 0 results_df results_df"

section \<open>fast\_batch\_processor.py\<close>

datatype py_error = ZeroDivisionError | ValueError

record stats =
  total_processed :: nat
  successful :: nat
  failed :: nat
  rate_limited :: nat

definition init_stats :: stats where
  "init_stats = \<lparr>total_processed = 0, successful = 0, failed = 0, rate_limited = 0\<rparr>"

definition update_stats :: "bool \<Rightarrow> bool \<Rightarrow> stats \<Rightarrow> stats" where
  "update_stats success limited st =
     (let st1 = st\<lparr>total_processed := total_processed st + 1\<rparr>;
          st2 = (if success then st1\<lparr>successful := successful st1 + 1\<rparr>
                 else st1\<lparr>failed := failed st1 + 1\<rparr>)
      in if limited then st2\<lparr>rate_limited := rate_limited st2 + 1\<rparr> else st2)"

text \<open>
  The dictionary of one result. The keys \<open>thread_id\<close>, \<open>search_energy_level\<close>,
  \<open>matched_model\<close> and \<open>producer\<close> are not always present.
\<close>

record result =
  row_index :: int
  original_model :: ustr
  excel_energy_level :: ustr
  res_search_success :: bool
  validation_result :: ustr
  details :: ustr
  thread_id :: "nat option"
  search_energy_level :: "ustr option"
  matched_model :: "ustr option"
  res_producer :: "ustr option"

text \<open>
  What the world does for one query: the thread that runs it, an exception raised by
  \<open>_rate_limit_control\<close> or by \<open>_get_crawler_for_thread\<close>, and \<open>search_product\<close>, which
  answers or raises. An exception is modelled by its message, \<open>str(e)\<close>.

  The two stages that work on the answer of the search, \<open>extract_energy_levels\<close> and
  \<open>find_best_match\<close>, are total on the typed records of the model. On an answer that is
  not so typed (a null in the list of records, a null model among several candidates)
  they raise, inside the same \<open>try\<close> block and after \<open>search_success\<close> is set;
  \<open>stage_error\<close> says whether such a stage raises for this query.
\<close>

datatype stage = ExtractLevels | FindBestMatch

record query_env =
  worker_thread :: nat
  rate_limit_error :: "ustr option"
  crawler_error :: "ustr option"
  search_product :: "ustr \<Rightarrow> ustr + search_result"
  stage_error :: "stage \<Rightarrow> ustr option"

definition msg_no_result :: ustr where "msg_no_result = [0x641C, 0x7D22, 0x65E0, 0x7ED3, 0x679C]"
definition msg_error :: ustr where "msg_error = [0x5904, 0x7406, 0x51FA, 0x9519, 0x3A, 0x20]"
definition msg_no_levels :: ustr where "msg_no_levels = 
     [0x65E0, 0x6CD5, 0x63D0, 0x53D6, 0x80FD, 0x6548, 0x7B49, 0x7EA7, 0x4FE1, 0x606F]"
definition msg_task_failed :: ustr where "msg_task_failed = [0x4EFB, 0x52A1, 0x6267, 0x884C, 0x5931, 0x8D25, 0x3A, 0x20]"
definition msg_match :: ustr where "msg_match = [0x5339, 0x914D, 0x3A, 0x20]"
definition msg_mismatch :: ustr where "msg_mismatch = 
     [0x4E0D, 0x5339, 0x914D, 0x3A, 0x20, 0x45, 0x78, 0x63, 0x65, 0x6C, 0x28]"
definition msg_vs :: ustr where "msg_vs = [0x29, 0x20, 0x76, 0x73, 0x20, 0x641C, 0x7D22, 0x28]"
definition msg_excel_missing :: ustr where "msg_excel_missing = 
     [0x45, 0x78, 0x63, 0x65, 0x6C, 0x7F3A, 0x5931, 0xFF0C, 0x7F51, 0x7AD9, 0x663E,
      0x793A, 0x3A, 0x20]"
definition msg_dash :: ustr where "msg_dash = [0x20, 0x2D, 0x20]"
definition msg_undetermined :: ustr where "msg_undetermined = [0x65E0, 0x6CD5, 0x786E, 0x5B9A, 0x3A, 0x20]"
definition msg_in :: ustr where "msg_in = [0x5728, 0x20]"
definition msg_unmatched :: ustr where "msg_unmatched = 
     [0x20, 0x6761, 0x8BB0, 0x5F55, 0x4E2D, 0x672A, 0x627E, 0x5230, 0x5339, 0x914D]"

definition describe :: "ustr \<Rightarrow> ustr \<Rightarrow> ustr \<Rightarrow> candidate \<Rightarrow> ustr" where
  "describe verdict excel_level search_level best_match =
     (if verdict = v_correct then msg_match @ model best_match @ msg_dash @ search_level
      else if verdict = v_incorrect then
        msg_mismatch @ excel_level @ msg_vs @ search_level @ [0x29]
      else if verdict = v_excel_missing then
        msg_excel_missing @ search_level @ msg_dash @ model best_match
      else msg_undetermined @ model best_match)"

text \<open>
  The body of the \<open>try\<close> block: the exception that leaves it, with the result dictionary
  as it is at that moment, or the result.
\<close>

definition pipeline ::
  "runtime \<Rightarrow> int \<times> ustr \<times> ustr \<Rightarrow> query_env \<Rightarrow> result \<Rightarrow> (ustr \<times> result) + result" where
  "pipeline rt model_data env result0 =
     (case model_data of (idx, original, excel_level) \<Rightarrow>
      case rate_limit_error env of
        Some e \<Rightarrow> Inl (e, result0)
      | None \<Rightarrow>
     (case crawler_error env of
        Some e \<Rightarrow> Inl (e, result0)
      | None \<Rightarrow>
     (let extracted = extract_model (PyStr original) in
      case search_product env extracted of
        Inl e \<Rightarrow> Inl (e, result0)
      | Inr sr \<Rightarrow>
          let records = (case sr of Records rs \<Rightarrow> rs | _ \<Rightarrow> []) in
          if sr \<noteq> NoResult \<and> records \<noteq> [] then
            let result1 = result0\<lparr>res_search_success := True\<rparr> in
            case stage_error env ExtractLevels of
              Some e \<Rightarrow> Inl (e, result1)
            | None \<Rightarrow>
            (let levels = extract_energy_levels sr
             in if levels \<noteq> [] then
                 (case stage_error env FindBestMatch of
                    Some e \<Rightarrow> Inl (e, result1)
                  | None \<Rightarrow>
                 (case fst (find_best_match rt
                        \<lparr>search_success = True, energy_levels = levels,
                         extracted_model = Some extracted\<rparr> original) of
                    Some best_match \<Rightarrow>
                      let search_level = energy_level best_match;
                          verdict =
                            compare_energy_levels rt (PyStr excel_level) (PyStr search_level)
                      in Inr (result1\<lparr>validation_result := verdict,
                                search_energy_level := Some search_level,
                                matched_model := Some (model best_match),
                                res_producer := Some (producer best_match),
                                details := describe verdict excel_level search_level best_match\<rparr>)
                  | None \<Rightarrow>
                      Inr (result1\<lparr>details :=
                             msg_in @ str_int (int (length levels)) @ msg_unmatched\<rparr>)))
               else Inr (result1\<lparr>details := msg_no_levels\<rparr>))
          else Inr (result0\<lparr>details := msg_no_result\<rparr>))))"

text \<open>
  \<open>_search_single_product\<close>: the result and the statistics after it. The handler writes
  the message of the exception into the dictionary as the \<open>try\<close> block left it, and counts
  a failure.
\<close>

definition search_single_product ::
  "runtime \<Rightarrow> int \<times> ustr \<times> ustr \<Rightarrow> query_env \<Rightarrow> stats \<Rightarrow> result \<times> stats" where
  "search_single_product rt model_data env st =
     (case model_data of (idx, original, excel_level) \<Rightarrow>
      let result0 =
            \<lparr>row_index = idx, original_model = original, excel_energy_level = excel_level,
             res_search_success = False, validation_result = v_not_found, details = [],
             thread_id = Some (worker_thread env), search_energy_level = None,
             matched_model = None, res_producer = None\<rparr>
      in case pipeline rt model_data env result0 of
           Inr r \<Rightarrow> (r, update_stats (res_search_success r) False st)
         | Inl (e, r) \<Rightarrow> (r\<lparr>details := msg_error @ e\<rparr>, update_stats False False st))"

text \<open>
  The body of the loop over the completed futures: \<open>future.result()\<close> gives the result of
  the call or raises its exception, for which an error result is built.
\<close>

definition collect :: "int \<times> ustr \<times> ustr \<Rightarrow> ustr + result \<Rightarrow> result" where
  "collect data outcome =
     (case outcome of
        Inr r \<Rightarrow> r
      | Inl e \<Rightarrow>
          (case data of (idx, original, excel_level) \<Rightarrow>
            \<lparr>row_index = idx, original_model = original, excel_energy_level = excel_level,
             res_search_success = False, validation_result = v_not_found,
             details = msg_task_failed @ e,
             thread_id = None, search_energy_level = None,
             matched_model = None, res_producer = None\<rparr>))"

text \<open>
  The calls run in the pool; the list is in the order of their completion. The statistics
  are updated under a lock, one call after the other.
\<close>

fun run_futures ::
  "runtime \<Rightarrow> ((int \<times> ustr \<times> ustr) \<times> query_env) list \<Rightarrow> stats \<Rightarrow> result list \<times> stats" where
  "run_futures rt [] st = ([], st)"
| "run_futures rt ((data, env) # rest) st =
     (let (r, st1) = search_single_product rt data env st;
          (rs, st2) = run_futures rt rest st1
      in (collect data (Inr r) # rs, st2))"

text \<open>
  \<open>_print_final_stats\<close> prints, and divides by the number of processed queries and by the
  elapsed time, the difference of the readings of the clock at the end and at the start of
  the batch; \<open>None\<close> means that it returns.
\<close>

definition print_final_stats :: "stats \<Rightarrow> real \<Rightarrow> py_error option" where
  "print_final_stats st elapsed =
     (if total_processed st = 0 then Some ZeroDivisionError
      else if elapsed = 0 then Some ZeroDivisionError
      else None)"

text \<open>
  \<open>process_batch\<close>. The scheduling is a parameter: \<open>envs\<close> gives the world of each query
  and \<open>order\<close> the positions of the queries in the order in which their calls complete.
  \<open>ThreadPoolExecutor\<close> raises \<open>ValueError\<close> for a number of workers below one.
\<close>

definition process_batch ::
  "runtime \<Rightarrow> int \<Rightarrow> stats \<Rightarrow> (int \<times> ustr \<times> ustr) list \<Rightarrow> query_env list \<Rightarrow> nat list \<Rightarrow>
   real \<Rightarrow> (py_error + result list) \<times> stats" where
  "process_batch rt max_workers st products_data envs order elapsed =
     (if max_workers \<le> 0 then (Inl ValueError, st)
      else
        let jobs = zip products_data envs;
            (results, st1) = run_futures rt (map (\<lambda>i. jobs ! i) order) st;
            sorted_results = sort_key row_index results
        in case print_final_stats st1 elapsed of
             Some err \<Rightarrow> (Inl err, st1)
           | None \<Rightarrow> (Inr sorted_results, st1))"

section \<open>main\_fast.py\<close>

text \<open>
  \<open>FastValidator._perform_relevance_check\<close>, named \<open>fast_perform_relevance_check\<close>
  here, beside \<open>RelevanceChecker.perform_relevance_check\<close>. It changes the dictionaries
  of the list in place, each at most once; the model returns the changed list. When no
  result is incorrect it returns its argument at once.
\<close>

definition msg_irrelevant :: ustr where
  "msg_irrelevant = 
     [0x4EA7, 0x54C1, 0x4E0D, 0x76F8, 0x5173, 0xFF0C, 0x5224, 0x5B9A, 0x4E3A,
      0x641C, 0x7D22, 0x65E0, 0x6548, 0x3A, 0x20]"

definition recheck :: "runtime \<Rightarrow> result \<Rightarrow> result" where
  "recheck rt r =
     (if validation_result r = v_incorrect then
        (let matched = (case matched_model r of Some m \<Rightarrow> m | None \<Rightarrow> []) in
         if \<not> is_relevant_match rt (original_model r) matched [] [] then
           r\<lparr>validation_result := v_not_found, details := msg_irrelevant @ original_model r\<rparr>
         else r)
      else r)"

definition fast_perform_relevance_check :: "runtime \<Rightarrow> result list \<Rightarrow> result list" where
  "fast_perform_relevance_check rt results =
     (let error_count = length (filter (\<lambda>r. validation_result r = v_incorrect) results)
      in if error_count = 0 then results else map (recheck rt) results)"

section \<open>A runtime for the examples\<close>

text \<open>
  The examples are evaluated with this runtime. For strings of ASCII characters and CJK
  ideographs its character classes and its \<open>lower\<close> are those of Python. Its ratio is
  that of Python for two equal strings (one), and for two strings without a common character
  (zero); its search finds no match. The examples stay within these inputs.
\<close>

definition ascii_lower :: "nat \<Rightarrow> nat" where
  "ascii_lower c = (if 0x41 \<le> c \<and> c \<le> 0x5A then c + 0x20 else c)"

definition is_ascii_digit :: "nat \<Rightarrow> bool" where
  "is_ascii_digit c \<longleftrightarrow> 0x30 \<le> c \<and> c \<le> 0x39"

definition test_runtime :: runtime where
  "test_runtime =
     \<lparr>py_isword = (\<lambda>c. is_letter c \<or> is_ascii_digit c \<or> c = 0x5F \<or> is_chinese c),
      py_isdigit = is_ascii_digit,
      py_lower = map ascii_lower,
      sm_ratio = (\<lambda>a b. if a = b then 1 else 0),
      re_group1 = (\<lambda>p s. None)\<rparr>"

text \<open>The keys of \<open>level_mapping\<close> that are mapped to a grade.\<close>

definition mapped_keys :: "ustr list" where
  "mapped_keys = map fst (filter (\<lambda>kv. snd kv \<noteq> None) level_mapping)"

section \<open>Predicates for the properties of deduplication\<close>

text \<open>
  A group is well formed when its records have the model that is its key; the members of
  the groups; and the raw records that carry a level, the only ones \<open>extract_energy_levels\<close>
  keeps.
\<close>

definition group_ok :: "ustr \<times> candidate \<times> candidate list \<Rightarrow> bool" where
  "group_ok mg \<longleftrightarrow> (case mg of (m, r0, g) \<Rightarrow> model r0 = m \<and> (\<forall>r\<in>set g. model r = m))"

definition group_members :: "(ustr \<times> candidate \<times> candidate list) list \<Rightarrow> candidate set" where
  "group_members gs = (\<Union>mg\<in>set gs. case mg of (m, r0, g) \<Rightarrow> insert r0 (set g))"

definition levelled :: "raw_record list \<Rightarrow> raw_record list" where
  "levelled rs = filter (\<lambda>r. level_truthy (nxLever r)) rs"

section \<open>Predicates for the properties of the brand check\<close>

text \<open>
  The characters of the tables are ASCII characters and CJK ideographs; on strings of such
  characters \<open>str.lower\<close> changes the ASCII capitals only, which is what
  \<open>lower_standard\<close> asks of a runtime. \<open>in_family_ascii\<close> is \<open>in_family\<close> for such a
  runtime.
\<close>

definition plain_char :: "nat \<Rightarrow> bool" where
  "plain_char c \<longleftrightarrow> c < 0x80 \<or> is_chinese c"

definition lower_standard :: "runtime \<Rightarrow> bool" where
  "lower_standard rt \<longleftrightarrow> (\<forall>s. list_all plain_char s \<longrightarrow> py_lower rt s = map ascii_lower s)"

definition in_family_ascii :: "ustr \<Rightarrow> ustr \<times> ustr list \<Rightarrow> bool" where
  "in_family_ascii brand row \<longleftrightarrow>
     map ascii_lower brand = map ascii_lower (fst row) \<or>
     map ascii_lower brand \<in> set (map (map ascii_lower) (snd row))"

section \<open>Predicates for the properties of the batch and of the relevance pass\<close>

text \<open>
  A job is a query with its world. \<open>worker_result\<close> is the result of the call for a job
  (it does not depend on the statistics). A job fails when one of the stages raises, or the
  search answers \<open>None\<close> or no record. \<open>recheck_labelled\<close> is what the pass over a data
  frame does to a row whose label no other row carries.
\<close>

definition recheck_row :: "runtime \<Rightarrow> frame_row \<Rightarrow> frame_row" where
  "recheck_row rt row =
     (if col_result row = v_incorrect \<and>
         \<not> is_relevant_match rt (col_model row) (col_matched row) [] []
      then row\<lparr>col_result := v_not_found, col_details := msg_irrelevant_frame @ col_model row\<rparr>
      else row)"

definition recheck_labelled :: "runtime \<Rightarrow> int \<times> frame_row \<Rightarrow> int \<times> frame_row" where
  "recheck_labelled rt lr = (fst lr, recheck_row rt (snd lr))"


definition worker_result :: "runtime \<Rightarrow> (int \<times> ustr \<times> ustr) \<times> query_env \<Rightarrow> result" where
  "worker_result rt job = fst (search_single_product rt (fst job) (snd job) init_stats)"

definition query_fails :: "(int \<times> ustr \<times> ustr) \<times> query_env \<Rightarrow> bool" where
  "query_fails job \<longleftrightarrow>
     (case job of ((idx, original, excel_level), env) \<Rightarrow>
        rate_limit_error env \<noteq> None \<or> crawler_error env \<noteq> None \<or>
        (case search_product env (extract_model (PyStr original)) of
           Inl e \<Rightarrow> True
         | Inr NoResult \<Rightarrow> True
         | Inr NoList \<Rightarrow> True
         | Inr (Records rs) \<Rightarrow>
             rs = [] \<or> stage_error env ExtractLevels \<noteq> None \<or>
             (extract_energy_levels (Records rs) \<noteq> [] \<and>
              stage_error env FindBestMatch \<noteq> None)))"

section \<open>Properties of the identifier normalizer\<close>

lemma chinese_not_space: "is_chinese c \<Longrightarrow> \<not> py_isspace c"
  by (auto simp: is_chinese_def py_isspace_def)

lemma strip_length: "length (py_strip s) \<le> length s"
proof -
  have "length (dropWhile py_isspace (rev (dropWhile py_isspace s))) \<le> length (rev (dropWhile py_isspace s))"
    by (rule length_dropWhile_le)
  also have "\<dots> \<le> length s" by (simp add: length_dropWhile_le)
  finally show ?thesis by (simp add: py_strip_def)
qed

lemma dropWhile_hd_id: "xs \<noteq> [] \<Longrightarrow> \<not> P (hd xs) \<Longrightarrow> dropWhile P xs = xs"
  by (cases xs) auto

lemma last_dropWhile: "dropWhile P xs \<noteq> [] \<Longrightarrow> last (dropWhile P xs) = last xs"
  by (induction xs) (auto split: if_splits)

lemma strip_id: "stripped s \<Longrightarrow> py_strip s = s"
proof (cases "s = []")
  case True then show ?thesis by (simp add: py_strip_def)
next
  case False
  assume "stripped s"
  with False have h: "\<not> py_isspace (hd s)" "\<not> py_isspace (last s)" by (auto simp: stripped_def)
  from False h(1) have 1: "dropWhile py_isspace s = s" by (rule dropWhile_hd_id)
  have "rev s \<noteq> []" using False by simp
  moreover have "\<not> py_isspace (hd (rev s))" using h(2) False by (simp add: hd_rev)
  ultimately have 2: "dropWhile py_isspace (rev s) = rev s" by (rule dropWhile_hd_id)
  show ?thesis by (simp add: py_strip_def 1 2)
qed

lemma stripped_strip: "stripped (py_strip s)"
proof -
  define d where "d = dropWhile py_isspace s"
  define e where "e = dropWhile py_isspace (rev d)"
  have strip: "py_strip s = rev e" by (simp add: py_strip_def d_def e_def)
  show ?thesis
  proof (cases "e = []")
    case True then show ?thesis by (simp add: strip stripped_def)
  next
    case False
    have hd_e: "\<not> py_isspace (hd e)" using False unfolding e_def by (rule hd_dropWhile)
    have dne: "d \<noteq> []" using False by (auto simp: e_def)
    then have hd_d: "\<not> py_isspace (hd d)" unfolding d_def by (rule hd_dropWhile)
    have "last e = last (rev d)" using False unfolding e_def by (rule last_dropWhile)
    also have "\<dots> = hd d" using dne by (simp add: last_rev)
    finally have "\<not> py_isspace (last e)" using hd_d by simp
    with hd_e False show ?thesis by (simp add: strip stripped_def hd_rev last_rev)
  qed
qed

lemma strip_idem: "py_strip (py_strip s) = py_strip s"
  by (rule strip_id) (rule stripped_strip)

lemma takeWhile_short: "\<exists>x\<in>set xs. \<not> P x \<Longrightarrow> length (takeWhile P xs) < length xs"
  by (induction xs) auto

lemma all_chinese_stripped: "list_all is_chinese s \<Longrightarrow> stripped s"
  by (cases s rule: rev_cases) (auto simp: stripped_def chinese_not_space list_all_iff hd_append)

lemma strip_drop_shorter:
  assumes "startswith m b" "b \<noteq> []"
  shows "length (py_strip (drop (length b) m)) < length m"
proof -
  from assms have "length b \<le> length m" "0 < length b"
    by (auto simp: startswith_def) (metis length_take min.cobounded2 nat_le_linear take_all)
  moreover have "length (py_strip (drop (length b) m)) \<le> length m - length b"
    using strip_length[of "drop (length b) m"] by simp
  ultimately show ?thesis by linarith
qed

lemma strip_first_brand_None: "list_ex (startswith m) bs \<longleftrightarrow> strip_first_brand bs m \<noteq> None"
  by (induction bs) auto

lemma strip_first_brand_Some:
  "strip_first_brand bs m = Some r \<Longrightarrow> \<forall>b\<in>set bs. b \<noteq> [] \<Longrightarrow> length r < length m \<and> stripped r"
  by (induction bs) (auto split: if_splits simp: strip_drop_shorter stripped_strip)

lemma brands_nonempty: "\<forall>b\<in>set common_brands. b \<noteq> []" "\<forall>b\<in>set common_brands_version. b \<noteq> []"
  by (simp_all add: common_brands_def common_brands_version_def brand_midea_def brand_haier_def
      brand_aux_def brand_chigo_def brand_tcl_def brand_xiaomi_def brand_mijia_def)

lemma generic_core_nonempty:
  assumes "\<not> list_all P y"
  shows "length (takeWhile P y) < length y - length (takeWhile P (rev y))"
proof -
  have y: "y = takeWhile P y @ dropWhile P y" by simp
  have ex: "\<exists>x\<in>set (dropWhile P y). \<not> P x"
    using assms by (metis dropWhile_eq_Nil_conv hd_dropWhile hd_in_set list_all_iff)
  have "rev y = rev (dropWhile P y) @ rev (takeWhile P y)"
    by (metis rev_append takeWhile_dropWhile_id)
  moreover have "\<exists>x\<in>set (rev (dropWhile P y)). \<not> P x" using ex by simp
  ultimately have "takeWhile P (rev y) = takeWhile P (rev (dropWhile P y))"
    by (metis takeWhile_append1)
  moreover have "length (takeWhile P (rev (dropWhile P y))) < length (rev (dropWhile P y))"
    using ex by (intro takeWhile_short) simp
  ultimately have "length (takeWhile P (rev y)) < length (dropWhile P y)" by simp
  moreover have "length y = length (takeWhile P y) + length (dropWhile P y)"
    by (metis length_append takeWhile_dropWhile_id)
  ultimately show ?thesis by linarith
qed

lemma takeWhile_hd_Nil: "xs \<noteq> [] \<Longrightarrow> \<not> P (hd xs) \<Longrightarrow> takeWhile P xs = []"
  by (cases xs) auto

lemma takeWhile_hd_pos: "xs \<noteq> [] \<Longrightarrow> P (hd xs) \<Longrightarrow> 0 < length (takeWhile P xs)"
  by (cases xs) auto

lemma generic_stripped: "stripped y \<Longrightarrow> stripped (extract_generic y)"
  by (auto simp: extract_generic_def Let_def stripped_strip)

lemma generic_fix:
  assumes "stripped y" "\<not> list_all is_chinese y" "\<not> is_chinese (hd y)" "\<not> is_chinese (last y)"
  shows "extract_generic y = y"
proof -
  from assms(2) have ne: "y \<noteq> []" by auto
  have 1: "takeWhile is_chinese y = []" using ne assms(3) by (rule takeWhile_hd_Nil)
  have "rev y \<noteq> []" using ne by simp
  moreover have "\<not> is_chinese (hd (rev y))" using ne assms(4) by (simp add: hd_rev)
  ultimately have 2: "takeWhile is_chinese (rev y) = []" by (rule takeWhile_hd_Nil)
  show ?thesis using assms(1,2) ne by (simp add: extract_generic_def 1 2 strip_id)
qed

lemma generic_shrinks:
  assumes "\<not> list_all is_chinese y" "is_chinese (hd y) \<or> is_chinese (last y)"
  shows "length (extract_generic y) < length y"
proof -
  from assms(1) have ne: "y \<noteq> []" by auto
  define s where "s = length (takeWhile is_chinese y)"
  define t where "t = length (takeWhile is_chinese (rev y))"
  define x where "x = take (length y - t - s) (drop s y)"
  have core: "s < length y - t" unfolding s_def t_def using assms(1) by (rule generic_core_nonempty)
  have lx: "length x = length y - t - s" by (simp add: x_def)
  have xne: "x \<noteq> []" using core lx by auto
  have "0 < s \<or> 0 < t"
  proof -
    { assume "is_chinese (hd y)" with ne have "0 < s" unfolding s_def by (rule takeWhile_hd_pos) }
    moreover
    { assume "is_chinese (last y)"
      then have "is_chinese (hd (rev y))" using ne by (simp add: hd_rev)
      moreover have "rev y \<noteq> []" using ne by simp
      ultimately have "0 < t" unfolding t_def by (intro takeWhile_hd_pos) }
    ultimately show ?thesis using assms(2) by blast
  qed
  then have "length x < length y" using core lx by linarith
  moreover have "length (py_strip x) \<le> length x" by (rule strip_length)
  moreover have "extract_generic y = (if x \<noteq> [] then py_strip x else y)"
    unfolding extract_generic_def Let_def s_def t_def x_def by (simp only: assms(1) if_False)
  ultimately show ?thesis using xne by simp
qed

lemma extract_model_str_stripped: "stripped (extract_model_str s)"
proof -
  have s0: "stripped []" by (simp add: stripped_def)
  show ?thesis
    unfolding extract_model_str_def Let_def extract_with_version_suffix_def
    using strip_first_brand_Some[OF _ brands_nonempty(1)] strip_first_brand_Some[OF _ brands_nonempty(2)]
    by (auto simp: stripped_strip s0 generic_stripped split: option.splits)
qed

lemma extract_model_eq: "extract_model (PyStr s) = extract_model_str s"
  by (simp add: extract_model_def extract_model_str_def py_strip_def)

lemma gree_len: "length brand_gree = 2" "brand_gree \<noteq> []" 
  and midea_ac_len: "length brand_midea_ac = 4" "brand_midea_ac \<noteq> []"
  by (simp_all add: brand_gree_def brand_midea_ac_def)

lemma fixpoint_iff:
  assumes st: "stripped y"
  shows "extract_model_str y = y \<longleftrightarrow> stable_model y"
proof (cases "y = []")
  case True
  then show ?thesis
    by (simp add: extract_model_str_def py_strip_def stable_model_def strips_brand_def startswith_def
        brand_gree_def brand_midea_ac_def common_brands_def common_brands_version_def brand_midea_def brand_haier_def
      brand_aux_def brand_chigo_def brand_tcl_def brand_xiaomi_def brand_mijia_def)
next
  case ne: False
  have sy: "py_strip y = y" using st by (rule strip_id)
  have g: "startswith y brand_gree \<Longrightarrow> py_strip (drop 2 y) \<noteq> y"
    using strip_drop_shorter[of y brand_gree] by (auto simp: gree_len)
  have m: "startswith y brand_midea_ac \<Longrightarrow> py_strip (drop 4 y) \<noteq> y"
    using strip_drop_shorter[of y brand_midea_ac] by (auto simp: midea_ac_len)
  have b1: "\<And>r. strip_first_brand common_brands y = Some r \<Longrightarrow> r \<noteq> y"
    using strip_first_brand_Some[OF _ brands_nonempty(1)] by fastforce
  have b2: "\<And>r. strip_first_brand common_brands_version y = Some r \<Longrightarrow> r \<noteq> y"
    using strip_first_brand_Some[OF _ brands_nonempty(2)] by fastforce
  show ?thesis
  proof (cases "has_version_suffix y")
    case True
    then show ?thesis using ne g m b2
      by (auto simp: extract_model_str_def sy extract_with_version_suffix_def stable_model_def
          strips_brand_def strip_first_brand_None split: option.splits)
  next
    case nv: False
    show ?thesis
    proof (cases "strips_brand y")
      case True
      then show ?thesis using ne g m b1 nv
        by (auto simp: extract_model_str_def sy stable_model_def
          strips_brand_def strip_first_brand_None split: option.splits)
    next
      case nb: False
      then have e: "extract_model_str y = (if startswith y [0x52, 0x46] then y else extract_generic y)"
        using ne nv
        by (auto simp: extract_model_str_def sy strips_brand_def strip_first_brand_None 
             split: option.splits)
      have "extract_generic y = y \<longleftrightarrow> list_all is_chinese y \<or> (\<not> is_chinese (hd y) \<and> \<not> is_chinese (last y))"
      proof (cases "list_all is_chinese y")
        case True then show ?thesis by (simp add: extract_generic_def)
      next
        case False
        then show ?thesis using generic_fix[OF st False] generic_shrinks[OF False] by fastforce
      qed
      then show ?thesis using e nb nv by (auto simp: stable_model_def)
    qed
  qed
qed

lemmas extract_defs =
  extract_model_def extract_model_str_def py_strip_def py_isspace_def has_version_suffix_def
  version_patterns_def match_suffix_def ci_literal_def sre_lower_def startswith_def
  extract_with_version_suffix_def extract_generic_def is_chinese_def strips_brand_def
  stable_model_def common_brands_def common_brands_version_def
  brand_gree_def brand_midea_ac_def brand_midea_def brand_haier_def brand_aux_def
  brand_chigo_def brand_tcl_def brand_xiaomi_def brand_mijia_def

subsection \<open>C7: inputs made of CJK ideographs only\<close>

text \<open>
  C7, as stated, fails: the brand rules come before the generic rule, and the brand
  \<open>brand_gree\<close> is itself made of two CJK ideographs; \<open>extract_model\<close> returns the
  empty string for it.
\<close>

theorem extract_model_cjk_counterexample:
  "list_all is_chinese [0x683C, 0x529B] \<and>
   extract_model (PyStr [0x683C, 0x529B]) \<noteq> [0x683C, 0x529B]"
  by (simp add: extract_defs)

text \<open>
  C7, amended: for every input made of CJK ideographs only, \<open>extract_model\<close> returns the
  input unchanged exactly when the input does not start with a brand prefix that the brand
  rules strip.
\<close>

theorem extract_model_cjk:
  "list_all is_chinese x \<Longrightarrow> extract_model (PyStr x) = x \<longleftrightarrow> \<not> strips_brand x"
proof -
  assume a: "list_all is_chinese x"
  then have "stripped x" by (rule all_chinese_stripped)
  then have "extract_model_str x = x \<longleftrightarrow> stable_model x" by (rule fixpoint_iff)
  with a show ?thesis by (simp add: extract_model_eq stable_model_def)
qed

text \<open>The amended C7 at a two-character input.\<close>

theorem extract_model_cjk_witness:
  "list_all is_chinese [0x4E2D, 0x6587] \<and> \<not> strips_brand [0x4E2D, 0x6587] \<and>
   extract_model (PyStr [0x4E2D, 0x6587]) = [0x4E2D, 0x6587]"
proof -
  have a: "list_all is_chinese [0x4E2D, 0x6587]" by (simp add: is_chinese_def)
  have b: "\<not> strips_brand [0x4E2D, 0x6587]" by (simp add: extract_defs)
  from extract_model_cjk [OF a] a b show ?thesis by simp
qed

subsection \<open>C8: idempotence\<close>

text \<open>
  C8, as stated, fails: for the input of a CJK ideograph, a space, a CJK ideograph and the
  letter A, which has no brand prefix, the generic rule keeps the part from the space on
  and trims it, which exposes a leading CJK ideograph that a second pass removes.
\<close>

theorem extract_model_idempotent_counterexample:
  "\<not> strips_brand (py_strip [0x4E2D, 0x20, 0x6587, 0x41]) \<and>
   extract_model (PyStr (extract_model (PyStr [0x4E2D, 0x20, 0x6587, 0x41]))) \<noteq>
   extract_model (PyStr [0x4E2D, 0x20, 0x6587, 0x41])"
  by (simp add: extract_defs)

text \<open>
  C8, amended: a second pass of \<open>extract_model\<close> returns the result \<open>y\<close> of the first
  unchanged exactly when \<open>y\<close> is stable: \<open>y\<close> starts with no brand prefix that the brand
  rules strip, and \<open>y\<close> ends in a version suffix, or starts with RF, or is made of CJK
  ideographs only, or neither begins nor ends with a CJK ideograph.
\<close>

theorem extract_model_idempotent_iff:
  "extract_model (PyStr (extract_model (PyStr x))) = extract_model (PyStr x) \<longleftrightarrow>
   stable_model (extract_model (PyStr x))"
  by (simp add: extract_model_eq fixpoint_iff extract_model_str_stripped)

text \<open>The amended C8 at a model with a leading CJK run.\<close>

theorem extract_model_idempotent_witness:
  "stable_model (extract_model (PyStr [0x7A7A, 0x8C03, 0x4B, 0x46, 0x52, 0x2D, 0x33, 0x35, 0x47, 0x57])) \<and>
   extract_model (PyStr (extract_model (PyStr [0x7A7A, 0x8C03, 0x4B, 0x46, 0x52, 0x2D, 0x33, 0x35, 0x47, 0x57]))) =
   extract_model (PyStr [0x7A7A, 0x8C03, 0x4B, 0x46, 0x52, 0x2D, 0x33, 0x35, 0x47, 0x57])"
proof -
  have e: "extract_model (PyStr [0x7A7A, 0x8C03, 0x4B, 0x46, 0x52, 0x2D, 0x33, 0x35, 0x47, 0x57]) = [0x4B, 0x46, 0x52, 0x2D, 0x33, 0x35, 0x47, 0x57]"
    by (simp add: extract_defs)
  have s: "stable_model [0x4B, 0x46, 0x52, 0x2D, 0x33, 0x35, 0x47, 0x57]"
    by (simp add: extract_defs)
  from extract_model_idempotent_iff [of "[0x7A7A, 0x8C03, 0x4B, 0x46, 0x52, 0x2D, 0x33, 0x35, 0x47, 0x57]"] e s
  show ?thesis by simp
qed

section \<open>Properties of the verdict decider\<close>

lemma level_mapping_grade:
  "dict_get level_mapping k = Some g \<Longrightarrow> g \<in> set canonical_grades"
  by (simp add: dict_get_def level_mapping_def canonical_grades_def split: if_splits)

lemma level_mapping_mapped:
  "dict_get level_mapping k \<noteq> None \<longleftrightarrow> k \<in> set mapped_keys"
  by (simp add: dict_get_def level_mapping_def mapped_keys_def)

lemma grades_nonempty: "g \<in> set canonical_grades \<Longrightarrow> g \<noteq> []"
  by (auto simp: canonical_grades_def)

lemma normalize_grade:
  "normalize_energy_level rt v = Some g \<Longrightarrow> g \<in> set canonical_grades"
  by (auto simp: normalize_energy_level_def level_mapping_grade split: pyval.splits if_splits)

lemma py_not_normalize:
  "py_not (normalize_energy_level rt v) \<longleftrightarrow> normalize_energy_level rt v = None"
  using normalize_grade[of rt v] grades_nonempty by (auto simp: py_not_def)

lemma verdicts_distinct: "distinct [v_correct, v_incorrect, v_not_found, v_excel_missing]"
  by (simp add: v_correct_def v_incorrect_def v_not_found_def v_excel_missing_def)

lemmas level_defs =
  normalize_energy_level_def clean_level_def dict_get_def level_mapping_def test_runtime_def
  py_strip_def py_isspace_def is_chinese_def is_letter_def is_ascii_digit_def mapped_keys_def

subsection \<open>C1: the decision table\<close>

text \<open>
  C1: \<open>compare_energy_levels\<close> follows the decision table. When the level found by the
  search does not normalize, the verdict is \<open>v_not_found\<close>; otherwise, when the declared
  level does not normalize, it is \<open>v_excel_missing\<close>; otherwise it is \<open>v_correct\<close> for
  equal grades and \<open>v_incorrect\<close> for different ones. A level that normalizes gives one of
  the five canonical grades; \<open>None\<close>, an object that is not a string, the empty string and
  every string whose cleaned form is not a mapped key normalize to \<open>None\<close>. The four
  verdicts are different strings.
\<close>

theorem compare_energy_levels_decision_table:
  "(normalize_energy_level rt search_level = None \<longrightarrow>
      compare_energy_levels rt excel_level search_level = v_not_found) \<and>
   (normalize_energy_level rt search_level \<noteq> None \<and>
    normalize_energy_level rt excel_level = None \<longrightarrow>
      compare_energy_levels rt excel_level search_level = v_excel_missing) \<and>
   (normalize_energy_level rt search_level \<noteq> None \<and>
    normalize_energy_level rt excel_level \<noteq> None \<and>
    normalize_energy_level rt excel_level = normalize_energy_level rt search_level \<longrightarrow>
      compare_energy_levels rt excel_level search_level = v_correct) \<and>
   (normalize_energy_level rt search_level \<noteq> None \<and>
    normalize_energy_level rt excel_level \<noteq> None \<and>
    normalize_energy_level rt excel_level \<noteq> normalize_energy_level rt search_level \<longrightarrow>
      compare_energy_levels rt excel_level search_level = v_incorrect) \<and>
   (\<forall>g. normalize_energy_level rt excel_level = Some g \<longrightarrow> g \<in> set canonical_grades) \<and>
   (\<forall>g. normalize_energy_level rt search_level = Some g \<longrightarrow> g \<in> set canonical_grades) \<and>
   normalize_energy_level rt PyNone = None \<and>
   normalize_energy_level rt PyOther = None \<and>
   normalize_energy_level rt (PyStr []) = None \<and>
   (clean_level rt s \<notin> set mapped_keys \<longrightarrow> normalize_energy_level rt (PyStr s) = None) \<and>
   distinct [v_correct, v_incorrect, v_not_found, v_excel_missing]"
proof -
  have t: "compare_energy_levels rt excel_level search_level =
     (if normalize_energy_level rt search_level = None then v_not_found
      else if normalize_energy_level rt excel_level = None then v_excel_missing
      else if normalize_energy_level rt excel_level = normalize_energy_level rt search_level
      then v_correct else v_incorrect)"
    by (simp only: compare_energy_levels_def Let_def py_not_normalize)
  have u: "clean_level rt s \<notin> set mapped_keys \<longrightarrow> normalize_energy_level rt (PyStr s) = None"
    using level_mapping_mapped[of "clean_level rt s"] by (auto simp: normalize_energy_level_def)
  have n: "normalize_energy_level rt PyNone = None" "normalize_energy_level rt PyOther = None"
    "normalize_energy_level rt (PyStr []) = None"
    by (simp_all add: normalize_energy_level_def)
  show ?thesis using t u n verdicts_distinct normalize_grade by simp
qed

text \<open>
  The table at the four scenarios: declared grade one against the digit 1, an empty declared
  level against grade two, declared grade three against the Roman numeral V, and a missing
  level from the search.
\<close>

theorem compare_energy_levels_decision_table_witness:
  "compare_energy_levels test_runtime (PyStr [0x4E00, 0x7EA7]) (PyStr [0x31]) = v_correct \<and>
   compare_energy_levels test_runtime (PyStr []) (PyStr [0x32, 0x7EA7]) = v_excel_missing \<and>
   compare_energy_levels test_runtime (PyStr [0x4E09, 0x7EA7]) (PyStr [0x56]) = v_incorrect \<and>
   compare_energy_levels test_runtime (PyStr [0x4E09, 0x7EA7]) PyNone = v_not_found \<and>
   normalize_energy_level test_runtime (PyStr [0x58]) = None"
proof -
  have a: "normalize_energy_level test_runtime (PyStr [0x4E00, 0x7EA7]) = Some [0x4E00, 0x7EA7]"
    and b: "normalize_energy_level test_runtime (PyStr [0x31]) = Some [0x4E00, 0x7EA7]"
    and c: "normalize_energy_level test_runtime (PyStr []) = None"
    and d: "normalize_energy_level test_runtime (PyStr [0x32, 0x7EA7]) = Some [0x4E8C, 0x7EA7]"
    and e: "normalize_energy_level test_runtime (PyStr [0x4E09, 0x7EA7]) = Some [0x4E09, 0x7EA7]"
    and f: "normalize_energy_level test_runtime (PyStr [0x56]) = Some [0x4E94, 0x7EA7]"
    and g: "normalize_energy_level test_runtime PyNone = None"
    and h: "clean_level test_runtime [0x58] \<notin> set mapped_keys"
    by (simp_all add: level_defs)
  from compare_energy_levels_decision_table
         [of test_runtime "PyStr [0x31]" "PyStr [0x4E00, 0x7EA7]" "[0x58]"]
       compare_energy_levels_decision_table
         [of test_runtime "PyStr [0x32, 0x7EA7]" "PyStr []" "[0x58]"]
       compare_energy_levels_decision_table
         [of test_runtime "PyStr [0x56]" "PyStr [0x4E09, 0x7EA7]" "[0x58]"]
       compare_energy_levels_decision_table
         [of test_runtime PyNone "PyStr [0x4E09, 0x7EA7]" "[0x58]"]
       a b c d e f g h
  show ?thesis by simp
qed

section \<open>Properties of the candidate scorer\<close>

lemma similarity_nonneg:
  "\<forall>a b. 0 \<le> sm_ratio rt a b \<Longrightarrow> 0 \<le> calculate_similarity_score rt x y"
  by (simp add: calculate_similarity_score_def)

lemma containment_bonus_nonneg: "0 \<le> containment_bonus a b c"
  by (simp add: containment_bonus_def)

lemma brand_bonus_nonneg: "0 \<le> brand_bonus rt a b"
  by (simp add: brand_bonus_def)

lemma completeness_bonus_nonneg: "0 \<le> completeness_bonus c"
  by (simp add: completeness_bonus_def)

subsection \<open>C6: the score is between 0 and 100\<close>

text \<open>
  C6: for every original model, extracted model and candidate record, \<open>score_match\<close>
  returns a value between 0 and 100, for every runtime whose ratio is never negative (the
  ratio of \<open>difflib\<close> is between 0 and 1).
\<close>

theorem score_match_bounded:
  assumes "\<forall>a b. 0 \<le> sm_ratio rt a b"
  shows "0 \<le> score_match rt orig extr c \<and>
         score_match rt orig extr c \<le> 100"
proof -
  have s: "0 \<le> max (calculate_similarity_score rt orig (model c))
                   (calculate_similarity_score rt extr (model c)) * 90"
    using similarity_nonneg[OF assms] by (simp add: le_max_iff_disj)
  note b = containment_bonus_nonneg[of orig extr "model c"]
    completeness_bonus_nonneg[of c]
  show ?thesis
    unfolding score_match_def Let_def
    using s b brand_bonus_nonneg[of rt] by (auto intro!: add_nonneg_nonneg)
qed

text \<open>C6 at a candidate that shares no character with the model.\<close>

theorem score_match_bounded_witness:
  "(\<forall>a b. 0 \<le> sm_ratio test_runtime a b) \<and>
   0 \<le> score_match test_runtime [0x31, 0x32] [0x31, 0x32]
         \<lparr>model = [0x39, 0x39], energy_level = [0x4E00, 0x7EA7], producer = [],
          record_number = [], product_type = [], announcement_time = []\<rparr> \<and>
   score_match test_runtime [0x31, 0x32] [0x31, 0x32]
         \<lparr>model = [0x39, 0x39], energy_level = [0x4E00, 0x7EA7], producer = [],
          record_number = [], product_type = [], announcement_time = []\<rparr> \<le> 100"
proof -
  have h: "\<forall>a b. 0 \<le> sm_ratio test_runtime a b" by (simp add: test_runtime_def)
  from score_match_bounded [OF h] h show ?thesis by blast
qed

lemma py_in_set: "py_in sub s \<Longrightarrow> set sub \<subseteq> set s"
proof (induction s)
  case Nil then show ?case by simp
next
  case (Cons c cs)
  then show ?case
  proof (cases "startswith (c # cs) sub")
    case True
    then have "sub = take (length sub) (c # cs)" by (simp add: startswith_def)
    then have "set sub \<subseteq> set (c # cs)" by (metis set_take_subset)
    then show ?thesis .
  next
    case False
    with Cons show ?thesis by auto
  qed
qed

lemma digits_no_priority_brand:
  "\<forall>b\<in>set priority_brands. \<not> set b \<subseteq> {0x31, 0x32, 0x39} \<and> \<not> set (map ascii_lower b) \<subseteq> {0x31, 0x32, 0x39}"
  by (simp add: priority_brands_def ascii_lower_def)

lemma no_brand_digits:
  assumes "set s \<subseteq> {0x31, 0x32, 0x39}" "s \<noteq> []"
  shows "extract_brand_from_model test_runtime s = []"
proof -
  have st: "py_strip s = s"
  proof (rule strip_id)
    have "hd s \<in> set s" "last s \<in> set s" using assms(2) by simp_all
    with assms(1) have "hd s \<in> {0x31, 0x32, 0x39}" "last s \<in> {0x31, 0x32, 0x39}" by auto
    then show "stripped s" by (auto simp: stripped_def py_isspace_def)
  qed
  have lw: "map ascii_lower s = s"
    using assms(1) by (induction s) (auto simp: ascii_lower_def)
  have f: "find (\<lambda>brand. py_in brand s \<or> py_in (map ascii_lower brand) s) priority_brands = None"
    unfolding find_None_iff using digits_no_priority_brand py_in_set assms(1) by blast
  have c: "\<not> is_chinese (hd s)" "\<not> is_upper (hd s)"
    using assms by (cases s; auto simp: is_chinese_def is_upper_def)+
  then have t: "takeWhile is_chinese s = []" "english_prefix s = None"
    using assms(2) by (cases s; simp add: english_prefix_def)+
  show ?thesis
    using assms(2)
    by (simp add: extract_brand_from_model_def test_runtime_def st lw f t company_patterns_def)
qed

lemma score_low:
  "score_match test_runtime [0x31, 0x32] [0x31, 0x32]
         \<lparr>model = [0x39, 0x39], energy_level = [0x4E00, 0x7EA7], producer = [],
          record_number = [], product_type = [], announcement_time = []\<rparr> = 2"
proof -
  have b1: "extract_brand_from_model test_runtime [0x31, 0x32] = []"
    by (rule no_brand_digits) simp_all
  have b2: "extract_brand_from_model test_runtime [0x39, 0x39] = []"
    by (rule no_brand_digits) simp_all
  have b3: "extract_brand_from_model test_runtime [] = []"
    by (simp add: extract_brand_from_model_def)
  have p: "extract_power_spec test_runtime x = []" for x
    by (simp add: extract_power_spec_def power_patterns_def test_runtime_def)
  have s: "calculate_similarity_score test_runtime [0x31, 0x32] [0x39, 0x39] = 0"
    by (simp add: calculate_similarity_score_def test_runtime_def ascii_lower_def)
  show ?thesis
    unfolding score_match_def Let_def
    by (simp add: b1 b2 b3 p s containment_bonus_def brand_bonus_def completeness_bonus_def
        startswith_def kfr_def)
qed


lemma pipeline_example:
  "fst (search_single_product test_runtime (7, [0x31, 0x32], [0x4E00, 0x7EA7])
     \<lparr>worker_thread = 1, rate_limit_error = None, crawler_error = None,
      search_product = (\<lambda>q. Inr (Records
        [\<lparr>nxLever = LevelInt 1, productModel = [0x39, 0x39], producerName = [],
          registrationNumber = [], productType = [], announcementTime = []\<rparr>])),
        stage_error = (\<lambda>s. None)\<rparr> init_stats)
   = \<lparr>row_index = 7, original_model = [0x31, 0x32], excel_energy_level = [0x4E00, 0x7EA7],
             res_search_success = True, validation_result = v_correct,
             details = msg_match @ [0x39, 0x39] @ msg_dash @ [0x4E00, 0x7EA7],
             thread_id = Some 1, search_energy_level = Some [0x4E00, 0x7EA7],
             matched_model = Some [0x39, 0x39], res_producer = Some []\<rparr>"
proof -
  have e: "extract_model (PyStr [0x31, 0x32]) = [0x31, 0x32]"
    by (simp add: extract_defs)
  have l: "extract_energy_levels (Records
        [\<lparr>nxLever = LevelInt 1, productModel = [0x39, 0x39], producerName = [],
          registrationNumber = [], productType = [], announcementTime = []\<rparr>]) =
     [\<lparr>model = [0x39, 0x39], energy_level = [0x4E00, 0x7EA7], producer = [],
      record_number = [], product_type = [], announcement_time = []\<rparr>]"
    by (simp add: extract_energy_levels_def level_truthy_def to_candidate_def level_str_def
        str_int_def level_map_def filter_latest_records_def model_groups_def pick_record_def)
  have c: "compare_energy_levels test_runtime (PyStr [0x4E00, 0x7EA7]) (PyStr [0x4E00, 0x7EA7]) = v_correct"
    by (simp add: compare_energy_levels_def Let_def py_not_def level_defs)
  show ?thesis
    by (simp add: search_single_product_def pipeline_def e l c find_best_match_def describe_def
        Let_def update_stats_def)
qed


subsection \<open>C10: a search result with one candidate\<close>

text \<open>
  C10, as stated, fails for a search result that carries one candidate and is marked as
  failed: the first test of \<open>find_best_match\<close> answers \<open>None\<close> for it.
\<close>

theorem find_best_match_single_counterexample:
  "fst (find_best_match test_runtime
      \<lparr>search_success = False,
       energy_levels =
         [\<lparr>model = [0x39, 0x39], energy_level = [0x4E00, 0x7EA7], producer = [],
           record_number = [], product_type = [], announcement_time = []\<rparr>],
       extracted_model = None\<rparr> [0x31, 0x32]) \<noteq>
   Some \<lparr>model = [0x39, 0x39], energy_level = [0x4E00, 0x7EA7], producer = [],
          record_number = [], product_type = [], announcement_time = []\<rparr>"
  by (simp add: find_best_match_def)

text \<open>
  C10, amended: for every successful search result whose candidate list holds exactly one
  candidate, and every original model, \<open>find_best_match\<close> returns that candidate and
  prints nothing: no score is computed and the warning of a score below 30 is not given.
  For every search result that is marked as failed it returns \<open>None\<close> and prints nothing,
  whatever the candidate list holds.
\<close>

theorem find_best_match_single:
  "(search_success sr \<longrightarrow> energy_levels sr = [c] \<longrightarrow>
      find_best_match rt sr orig = (Some c, [])) \<and>
   (\<not> search_success sr \<longrightarrow> find_best_match rt sr orig = (None, []))"
  by (simp add: find_best_match_def)

text \<open>
  The amended C10 at a candidate whose score would be 2: it is returned, and the query is
  decided on it.
\<close>

theorem find_best_match_single_witness:
  "score_match test_runtime [0x31, 0x32] [0x31, 0x32]
     \<lparr>model = [0x39, 0x39], energy_level = [0x4E00, 0x7EA7], producer = [],
      record_number = [], product_type = [], announcement_time = []\<rparr> < 30 \<and>
   find_best_match test_runtime
     \<lparr>search_success = True,
      energy_levels =
        [\<lparr>model = [0x39, 0x39], energy_level = [0x4E00, 0x7EA7], producer = [],
          record_number = [], product_type = [], announcement_time = []\<rparr>],
      extracted_model = Some [0x31, 0x32]\<rparr> [0x31, 0x32] =
   (Some \<lparr>model = [0x39, 0x39], energy_level = [0x4E00, 0x7EA7], producer = [],
           record_number = [], product_type = [], announcement_time = []\<rparr>, []) \<and>
   find_best_match test_runtime
     \<lparr>search_success = False,
      energy_levels =
        [\<lparr>model = [0x39, 0x39], energy_level = [0x4E00, 0x7EA7], producer = [],
          record_number = [], product_type = [], announcement_time = []\<rparr>,
         \<lparr>model = [0x31, 0x32], energy_level = [0x4E00, 0x7EA7], producer = [],
          record_number = [], product_type = [], announcement_time = []\<rparr>],
      extracted_model = Some [0x31, 0x32]\<rparr> [0x31, 0x32] = (None, []) \<and>
   validation_result
     (fst (search_single_product test_runtime (7, [0x31, 0x32], [0x4E00, 0x7EA7])
        \<lparr>worker_thread = 1, rate_limit_error = None, crawler_error = None,
         search_product = (\<lambda>q. Inr (Records
           [\<lparr>nxLever = LevelInt 1, productModel = [0x39, 0x39], producerName = [],
             registrationNumber = [], productType = [], announcementTime = []\<rparr>])),
         stage_error = (\<lambda>s. None)\<rparr>
        init_stats)) = v_correct"
proof -
  let ?c = "\<lparr>model = [0x39, 0x39], energy_level = [0x4E00, 0x7EA7], producer = [],
      record_number = [], product_type = [], announcement_time = []\<rparr>"
  let ?d = "\<lparr>model = [0x31, 0x32], energy_level = [0x4E00, 0x7EA7], producer = [],
      record_number = [], product_type = [], announcement_time = []\<rparr>"
  let ?sr = "\<lparr>search_success = True, energy_levels = [?c],
      extracted_model = Some [0x31, 0x32]\<rparr>"
  let ?fr = "\<lparr>search_success = False, energy_levels = [?c, ?d],
      extracted_model = Some [0x31, 0x32]\<rparr>"
  have a: "search_success ?sr" by simp
  have b: "energy_levels ?sr = [?c]" by simp
  have f: "\<not> search_success ?fr" by simp
  from find_best_match_single [of ?sr ?c test_runtime "[0x31, 0x32]"]
       find_best_match_single [of ?fr ?c test_runtime "[0x31, 0x32]"]
       a b f score_low pipeline_example
  show ?thesis by simp
qed

section \<open>Properties of deduplication\<close>

lemma add_to_group_keys:
  "map fst (add_to_group gs r) =
     (if model r \<in> set (map fst gs) then map fst gs else map fst gs @ [model r])"
  by (induction gs r rule: add_to_group.induct) auto

lemma add_to_group_ok:
  "list_all group_ok gs \<Longrightarrow> list_all group_ok (add_to_group gs r)"
  by (induction gs r rule: add_to_group.induct) (auto simp: group_ok_def)

lemma add_to_group_members:
  "group_members (add_to_group gs r) = insert r (group_members gs)"
  by (induction gs r rule: add_to_group.induct) (auto simp: group_members_def)

lemma foldl_groups:
  "distinct (map fst gs) \<Longrightarrow> list_all group_ok gs \<Longrightarrow>
   distinct (map fst (foldl add_to_group gs rs)) \<and>
   list_all group_ok (foldl add_to_group gs rs) \<and>
   set (map fst (foldl add_to_group gs rs)) = set (map fst gs) \<union> set (map model rs) \<and>
   group_members (foldl add_to_group gs rs) = group_members gs \<union> set rs"
proof (induction rs arbitrary: gs)
  case Nil
  then show ?case by simp
next
  case (Cons r rs)
  have d: "distinct (map fst (add_to_group gs r))"
    using Cons.prems(1) by (simp add: add_to_group_keys)
  have k: "list_all group_ok (add_to_group gs r)"
    using Cons.prems(2) by (rule add_to_group_ok)
  have s: "set (map fst (add_to_group gs r)) = insert (model r) (set (map fst gs))"
    by (auto simp: add_to_group_keys)
  from Cons.IH[OF d k] s show ?case
    by (simp add: add_to_group_members)
qed

lemma model_groups_props:
  "distinct (map fst (model_groups rs)) \<and> list_all group_ok (model_groups rs) \<and>
   set (map fst (model_groups rs)) = set (map model rs) \<and>
   group_members (model_groups rs) = set rs"
  using foldl_groups[of "[]" rs] by (simp add: model_groups_def group_members_def)

lemma latest_from_mem: "latest_from r0 g \<in> insert r0 (set g)"
  by (induction g arbitrary: r0) (auto split: if_splits)

lemma pick_record_mem: "pick_record (m, r0, g) \<in> insert r0 (set g)"
  using latest_from_mem[of r0 g] by (simp add: pick_record_def)

lemma pick_record_model: "group_ok mg \<Longrightarrow> model (pick_record mg) = fst mg"
proof -
  assume a: "group_ok mg"
  obtain m r0 g where mg: "mg = (m, r0, g)" by (cases mg) auto
  from pick_record_mem[of m r0 g] a mg show ?thesis by (auto simp: group_ok_def)
qed

lemma filter_latest_eq: "filter_latest_records rs = map pick_record (model_groups rs)"
  by (simp add: filter_latest_records_def model_groups_def)

lemma filter_latest_models: "map model (filter_latest_records rs) = map fst (model_groups rs)"
proof -
  have "list_all group_ok (model_groups rs)" using model_groups_props by blast
  then have "map (model \<circ> pick_record) (model_groups rs) = map fst (model_groups rs)"
    by (intro map_cong refl) (auto simp: list_all_iff pick_record_model)
  then show ?thesis by (simp add: filter_latest_eq)
qed

lemma filter_latest_subset: "set (filter_latest_records rs) \<subseteq> set rs"
proof
  fix x assume "x \<in> set (filter_latest_records rs)"
  then obtain mg where mg: "mg \<in> set (model_groups rs)" "x = pick_record mg"
    by (auto simp: filter_latest_eq)
  obtain m r0 g where e: "mg = (m, r0, g)" by (cases mg) auto
  have "x \<in> insert r0 (set g)" using mg(2) e pick_record_mem by simp
  then have "x \<in> group_members (model_groups rs)" using mg(1) e by (auto simp: group_members_def)
  then show "x \<in> set rs" using model_groups_props by blast
qed

lemma filter_latest_props:
  "distinct (map model (filter_latest_records rs)) \<and>
   set (map model (filter_latest_records rs)) = set (map model rs) \<and>
   set (filter_latest_records rs) \<subseteq> set rs \<and>
   length (filter_latest_records rs) \<le> length rs"
proof -
  have d: "distinct (map model (filter_latest_records rs))"
    and s: "set (map model (filter_latest_records rs)) = set (map model rs)"
    using model_groups_props[of rs] by (simp_all add: filter_latest_models)
  have "length (filter_latest_records rs) = card (set (map model (filter_latest_records rs)))"
    using d by (metis distinct_card length_map)
  also have "\<dots> = card (set (map model rs))" by (simp only: s)
  also have "\<dots> \<le> length rs" by (metis card_length length_map)
  finally show ?thesis using d s filter_latest_subset by blast
qed

subsection \<open>C5: one candidate for each model\<close>

text \<open>
  C5, as stated, fails: \<open>extract_energy_levels\<close> keeps only the records that carry a
  level, so a model whose only record has an empty level gets no candidate.
\<close>

theorem extract_energy_levels_counterexample:
  "[0x41] \<in> set (map productModel
      [\<lparr>nxLever = LevelStr [], productModel = [0x41], producerName = [],
        registrationNumber = [], productType = [], announcementTime = []\<rparr>]) \<and>
   [0x41] \<notin> set (map model (extract_energy_levels (Records
      [\<lparr>nxLever = LevelStr [], productModel = [0x41], producerName = [],
        registrationNumber = [], productType = [], announcementTime = []\<rparr>])))"
  by (simp add: extract_energy_levels_def level_truthy_def filter_latest_records_def)


text \<open>
  C5, amended: for every list of raw records, the candidates have distinct models, their
  models are exactly the models of the raw records that carry a level, every candidate is
  the conversion of such a record, and there are at most as many candidates as raw records.
\<close>

theorem extract_energy_levels_one_per_model:
  "distinct (map model (extract_energy_levels (Records rs))) \<and>
   set (map model (extract_energy_levels (Records rs))) = set (map productModel (levelled rs)) \<and>
   set (extract_energy_levels (Records rs)) \<subseteq> set (map to_candidate (levelled rs)) \<and>
   length (extract_energy_levels (Records rs)) \<le> length rs"
proof -
  have e: "extract_energy_levels (Records rs) = filter_latest_records (map to_candidate (levelled rs))"
    by (simp add: extract_energy_levels_def levelled_def)
  have m: "map model (map to_candidate (levelled rs)) = map productModel (levelled rs)"
    by (simp add: to_candidate_def)
  have "length (filter_latest_records (map to_candidate (levelled rs))) \<le> length (levelled rs)"
    using filter_latest_props[of "map to_candidate (levelled rs)"] by simp
  also have "\<dots> \<le> length rs" by (simp add: levelled_def)
  finally have l: "length (filter_latest_records (map to_candidate (levelled rs))) \<le> length rs" .
  have mc: "model (to_candidate r) = productModel r" for r by (simp add: to_candidate_def)
  show ?thesis
    using filter_latest_props[of "map to_candidate (levelled rs)"] l by (simp add: e mc)
qed

text \<open>
  The amended C5 at four records: two of one model, of which the later one is kept, one
  without a level, which is dropped, and one with a level that is not a digit.
\<close>

theorem extract_energy_levels_one_per_model_witness:
  "extract_energy_levels (Records
     [\<lparr>nxLever = LevelInt 1, productModel = [0x41], producerName = [],
       registrationNumber = [], productType = [], announcementTime = [0x31]\<rparr>,
      \<lparr>nxLever = LevelStr [0x32], productModel = [0x41], producerName = [],
       registrationNumber = [], productType = [], announcementTime = [0x32]\<rparr>,
      \<lparr>nxLever = LevelMissing, productModel = [0x42], producerName = [],
       registrationNumber = [], productType = [], announcementTime = [0x33]\<rparr>,
      \<lparr>nxLever = LevelStr [0x58], productModel = [0x43], producerName = [],
       registrationNumber = [], productType = [], announcementTime = []\<rparr>]) =
     [\<lparr>model = [0x41], energy_level = [0x4E8C, 0x7EA7], producer = [],
       record_number = [], product_type = [], announcement_time = [0x32]\<rparr>,
      \<lparr>model = [0x43], energy_level = [0x58], producer = [],
       record_number = [], product_type = [], announcement_time = []\<rparr>] \<and>
   distinct (map model (extract_energy_levels (Records
     [\<lparr>nxLever = LevelInt 1, productModel = [0x41], producerName = [],
       registrationNumber = [], productType = [], announcementTime = [0x31]\<rparr>,
      \<lparr>nxLever = LevelStr [0x32], productModel = [0x41], producerName = [],
       registrationNumber = [], productType = [], announcementTime = [0x32]\<rparr>,
      \<lparr>nxLever = LevelMissing, productModel = [0x42], producerName = [],
       registrationNumber = [], productType = [], announcementTime = [0x33]\<rparr>,
      \<lparr>nxLever = LevelStr [0x58], productModel = [0x43], producerName = [],
       registrationNumber = [], productType = [], announcementTime = []\<rparr>])))"
proof -
  let ?rs = "[\<lparr>nxLever = LevelInt 1, productModel = [0x41], producerName = [],
       registrationNumber = [], productType = [], announcementTime = [0x31]\<rparr>,
      \<lparr>nxLever = LevelStr [0x32], productModel = [0x41], producerName = [],
       registrationNumber = [], productType = [], announcementTime = [0x32]\<rparr>,
      \<lparr>nxLever = LevelMissing, productModel = [0x42], producerName = [],
       registrationNumber = [], productType = [], announcementTime = [0x33]\<rparr>,
      \<lparr>nxLever = LevelStr [0x58], productModel = [0x43], producerName = [],
       registrationNumber = [], productType = [], announcementTime = []\<rparr>]"
  have e: "extract_energy_levels (Records ?rs) =
     [\<lparr>model = [0x41], energy_level = [0x4E8C, 0x7EA7], producer = [],
       record_number = [], product_type = [], announcement_time = [0x32]\<rparr>,
      \<lparr>model = [0x43], energy_level = [0x58], producer = [],
       record_number = [], product_type = [], announcement_time = []\<rparr>]"
    by (simp add: extract_energy_levels_def level_truthy_def to_candidate_def level_str_def
        str_int_def level_map_def filter_latest_records_def model_groups_def pick_record_def
        compare_time_strings_def)
  from extract_energy_levels_one_per_model [of ?rs] e show ?thesis by blast
qed

section \<open>Properties of the relevance check\<close>

lemma recheck_cases:
  "(validation_result r \<noteq> v_incorrect \<longrightarrow> recheck rt r = r) \<and>
   (validation_result r = v_incorrect \<longrightarrow>
      validation_result (recheck rt r) = v_incorrect \<or>
      validation_result (recheck rt r) = v_not_found)"
  by (simp add: recheck_def Let_def)

lemma recheck_row_cases:
  "(col_result row \<noteq> v_incorrect \<longrightarrow> recheck_row rt row = row) \<and>
   (col_result row = v_incorrect \<longrightarrow>
      col_result (recheck_row rt row) = v_incorrect \<or>
      col_result (recheck_row rt row) = v_not_found)"
  by (simp add: recheck_row_def)

lemma fast_perform_map: "fast_perform_relevance_check rt results = map (recheck rt) results"
proof (cases "filter (\<lambda>r. validation_result r = v_incorrect) results = []")
  case True
  then have "\<forall>r\<in>set results. validation_result r \<noteq> v_incorrect"
    by (simp add: filter_empty_conv)
  then have "map (recheck rt) results = results"
    by (intro map_idI) (simp add: recheck_cases)
  with True show ?thesis by (simp add: fast_perform_relevance_check_def)
next
  case False
  then show ?thesis by (simp add: fast_perform_relevance_check_def)
qed

lemmas relevance_defs =
  relevance_verdict_def is_relevant_match_def category_conflict_def extract_product_category_def
  product_categories_def unknown_category_def is_chinese_with_number_def
  check_chinese_model_relevance_def calculate_text_similarity_def extract_chinese_part_def
  extract_brand_info_def relevance_brands_def test_runtime_def ascii_lower_def startswith_def
  is_chinese_def is_letter_def is_ascii_digit_def


lemma relevant_example: "is_relevant_match test_runtime [0x683C, 0x529B, 0x4B, 0x46, 0x52, 0x2D, 0x33, 0x35, 0x47, 0x57] [0x683C, 0x529B, 0x4B, 0x46, 0x52, 0x2D, 0x33, 0x35, 0x47, 0x57] [] []"
  by (simp add: relevance_defs)


text \<open>
  The pass over the list of results keeps the number of results, returns a result whose
  verdict is not \<open>v_incorrect\<close> unchanged, and gives a result whose verdict is
  \<open>v_incorrect\<close> that verdict or \<open>v_not_found\<close>.
\<close>

lemma fast_relevance_check_transitions:
  "length (fast_perform_relevance_check rt results) = length results \<and>
   (\<forall>i<length results.
      (validation_result (results ! i) \<noteq> v_incorrect \<longrightarrow>
         fast_perform_relevance_check rt results ! i = results ! i) \<and>
      (validation_result (results ! i) = v_incorrect \<longrightarrow>
         validation_result (fast_perform_relevance_check rt results ! i) = v_incorrect \<or>
         validation_result (fast_perform_relevance_check rt results ! i) = v_not_found))"
  using recheck_cases[of _ rt] by (simp add: fast_perform_map)

text \<open>The pass over a data frame whose labels are all different does the same, row by row.\<close>

lemma at_write_other: "index \<notin> fst ` set df \<Longrightarrow> at_write index verdict info df = df"
  by (induction df) (auto simp: at_write_def)

lemma at_write_append:
  "at_write index verdict info (xs @ ys) =
   at_write index verdict info xs @ at_write index verdict info ys"
  by (simp add: at_write_def)

lemma recheck_labelled_fst: "fst (recheck_labelled rt lr) = fst lr"
  by (simp add: recheck_labelled_def)

lemma check_rows_unique:
  assumes "distinct (map fst (pre @ snap))"
  shows "check_rows rt live (length pre) snap (map (recheck_labelled rt) pre @ snap) =
         map (recheck_labelled rt) (pre @ snap)"
  using assms
proof (induction snap arbitrary: pre)
  case Nil
  then show ?case by simp
next
  case (Cons lr rest)
  obtain index old_row where lr: "lr = (index, old_row)" by (cases lr) auto
  let ?df = "map (recheck_labelled rt) pre @ lr # rest"
  have pos: "?df ! length pre = lr"
    using nth_append_length[of "map (recheck_labelled rt) pre" lr rest] by simp
  have d: "distinct (map fst ((pre @ [lr]) @ rest))" using Cons.prems by simp
  have n1: "index \<notin> fst ` set (map (recheck_labelled rt) pre)"
    using Cons.prems by (auto simp: lr recheck_labelled_fst image_iff)
  have n2: "index \<notin> fst ` set rest" using Cons.prems by (auto simp: lr)
  have w: "at_write index verdict info ?df =
           map (recheck_labelled rt) pre @
             (index, old_row\<lparr>col_result := verdict, col_details := info\<rparr>) # rest"
    for verdict info
    using at_write_other[OF n1] at_write_other[OF n2]
    by (simp add: at_write_append lr) (simp add: at_write_def)
  have ih: "check_rows rt live (Suc (length pre)) rest
              (map (recheck_labelled rt) (pre @ [lr]) @ rest) =
            map (recheck_labelled rt) ((pre @ [lr]) @ rest)"
    using Cons.IH[OF d] by simp
  show ?case
  proof (cases "col_result old_row = v_incorrect \<and>
      \<not> is_relevant_match rt (col_model old_row) (col_matched old_row) [] []")
    case True
    then have r: "recheck_labelled rt lr =
        (index, old_row\<lparr>col_result := v_not_found,
                          col_details := msg_irrelevant_frame @ col_model old_row\<rparr>)"
      by (simp add: recheck_labelled_def recheck_row_def lr)
    have "check_rows rt live (length pre) (lr # rest) ?df =
          check_rows rt live (Suc (length pre)) rest
            (at_write index v_not_found (msg_irrelevant_frame @ col_model old_row) ?df)"
      using True pos by (simp add: lr)
    also have "\<dots> = check_rows rt live (Suc (length pre)) rest
            (map (recheck_labelled rt) (pre @ [lr]) @ rest)"
      by (simp add: w r)
    finally show ?thesis using ih by simp
  next
    case False
    then have r: "recheck_labelled rt lr = lr"
      by (auto simp: recheck_labelled_def recheck_row_def lr)
    have "check_rows rt live (length pre) (lr # rest) ?df =
          check_rows rt live (Suc (length pre)) rest ?df"
      using False pos by (auto simp: lr)
    then show ?thesis using ih by (simp add: r)
  qed
qed

lemma frame_check_unique_labels:
  "distinct (map fst df) \<Longrightarrow>
   perform_relevance_check rt live df = map (recheck_labelled rt) df"
  using check_rows_unique[of "[]" df rt live] by (simp add: perform_relevance_check_def)

subsection \<open>C4: the only transition is from incorrect to not found\<close>


lemma tokens_plain: "list_all (list_all plain_char) relevance_brands"
  by (simp add: relevance_brands_def plain_char_def is_chinese_def)

lemma aliases_plain:
  "list_all (\<lambda>row. list_all plain_char (fst row) \<and> list_all (list_all plain_char) (snd row))
     brand_aliases"
  by (simp add: brand_aliases_def plain_char_def is_chinese_def)

lemma tokens_lower_distinct: "distinct (map (map ascii_lower) relevance_brands)"
  by (simp add: relevance_brands_def ascii_lower_def)

lemma token_family_main:
  "list_all (\<lambda>t. list_all (\<lambda>row. in_family_ascii t row \<longrightarrow> fst row = t) brand_aliases)
     relevance_brands"
  by (simp add: relevance_brands_def brand_aliases_def in_family_ascii_def ascii_lower_def)

lemma token_lower:
  "lower_standard rt \<Longrightarrow> t \<in> set relevance_brands \<Longrightarrow> py_lower rt t = map ascii_lower t"
  using tokens_plain by (auto simp: lower_standard_def list_all_iff)

lemma in_family_lower:
  assumes "lower_standard rt" "row \<in> set brand_aliases" "t \<in> set relevance_brands"
  shows "in_family rt (py_lower rt t) row \<longleftrightarrow> in_family_ascii t row"
proof -
  from aliases_plain assms(2)
  have p: "list_all plain_char (fst row)" "\<forall>a\<in>set (snd row). list_all plain_char a"
    by (auto simp: list_all_iff)
  have 1: "py_lower rt (fst row) = map ascii_lower (fst row)"
    using assms(1) p(1) by (simp add: lower_standard_def)
  have 2: "map (py_lower rt) (snd row) = map (map ascii_lower) (snd row)"
    using assms(1) p(2) by (intro map_cong refl) (simp add: lower_standard_def)
  show ?thesis
    by (simp only: in_family_def in_family_ascii_def 1 2 token_lower[OF assms(1,3)])
qed

lemma token_alias_equivalent:
  assumes "lower_standard rt" "t1 \<in> set relevance_brands" "t2 \<in> set relevance_brands"
  shows "alias_equivalent rt t1 t2 \<longleftrightarrow> t1 = t2"
proof
  assume "t1 = t2"
  then show "alias_equivalent rt t1 t2" by (simp add: alias_equivalent_def)
next
  assume a: "alias_equivalent rt t1 t2"
  have inj: "inj_on (map ascii_lower) (set relevance_brands)"
    using tokens_lower_distinct by (simp add: distinct_map)
  from a consider (eq) "py_lower rt t1 = py_lower rt t2"
    | (fam) row where "row \<in> set brand_aliases" "in_family rt (py_lower rt t1) row"
        "in_family rt (py_lower rt t2) row"
    by (auto simp: alias_equivalent_def Let_def list_ex_iff)
  then show "t1 = t2"
  proof cases
    case eq
    then have "map ascii_lower t1 = map ascii_lower t2"
      using assms by (simp add: token_lower)
    with inj assms(2,3) show ?thesis by (auto dest: inj_onD)
  next
    case fam
    from fam(2) have "in_family_ascii t1 row" using in_family_lower[OF assms(1) fam(1) assms(2)] by simp
    moreover from fam(3) have "in_family_ascii t2 row" using in_family_lower[OF assms(1) fam(1) assms(3)] by simp
    ultimately have "fst row = t1" "fst row = t2"
      using token_family_main fam(1) assms(2,3) by (auto simp: list_all_iff)
    then show ?thesis by simp
  qed
qed

lemma find_Some_mem: "find P xs = Some x \<Longrightarrow> x \<in> set xs"
  by (induction xs) (auto split: if_splits)

lemma extract_brand_info_token:
  "extract_brand_info rt m \<noteq> [] \<Longrightarrow> extract_brand_info rt m \<in> set relevance_brands"
  by (auto simp: extract_brand_info_def split: option.splits dest: find_Some_mem)

lemma lower_standard_test: "lower_standard test_runtime"
  by (simp add: lower_standard_def test_runtime_def)

subsection \<open>C9: the brand check and the alias table\<close>

text \<open>
  C9: when a brand is found both in the original model and in the matched model, the match
  is judged not relevant by the brand check exactly when the checks before it do not decide
  and the two brands are not alias-equivalent by the table \<open>brand_aliases\<close>; alias-equivalent
  brands never give this outcome. The check compares the two brands for equality; for the
  brands that \<open>extract_brand_info\<close> can return this is alias-equivalence, since no two of
  them share a row of the table.
\<close>

theorem brand_check_alias_equivalent:
  assumes "lower_standard rt"
    and "extract_brand_info rt orig \<noteq> []"
    and "extract_brand_info rt matched \<noteq> []"
  shows "(relevance_verdict rt orig matched orig_producer matched_producer = BrandMismatch \<longleftrightarrow>
            \<not> category_conflict rt orig matched \<and> \<not> is_chinese_with_number rt orig \<and>
            \<not> alias_equivalent rt (extract_brand_info rt orig) (extract_brand_info rt matched)) \<and>
         (alias_equivalent rt (extract_brand_info rt orig) (extract_brand_info rt matched) \<longrightarrow>
            relevance_verdict rt orig matched orig_producer matched_producer \<noteq> BrandMismatch) \<and>
         (alias_equivalent rt (extract_brand_info rt orig) (extract_brand_info rt matched) \<longleftrightarrow>
            extract_brand_info rt orig = extract_brand_info rt matched)"
proof -
  have e: "alias_equivalent rt (extract_brand_info rt orig) (extract_brand_info rt matched) \<longleftrightarrow>
           extract_brand_info rt orig = extract_brand_info rt matched"
    using assms by (intro token_alias_equivalent extract_brand_info_token)
  show ?thesis
    using assms(2,3) by (simp add: e relevance_verdict_def Let_def)
qed


text \<open>
  C9 at the pair of the source's own test, two air conditioners of different brands, and at
  a model matched to itself.
\<close>

theorem brand_check_alias_equivalent_witness:
  "lower_standard test_runtime \<and>
   extract_brand_info test_runtime [0x7F8E, 0x7684, 0x7A7A, 0x8C03, 0x4B, 0x46, 0x52, 0x2D, 0x32, 0x36, 0x47, 0x57] = [0x7F8E, 0x7684] \<and>
   extract_brand_info test_runtime [0x683C, 0x529B, 0x4B, 0x46, 0x52, 0x2D, 0x32, 0x36, 0x47, 0x57] = [0x683C, 0x529B] \<and>
   \<not> alias_equivalent test_runtime [0x7F8E, 0x7684] [0x683C, 0x529B] \<and>
   relevance_verdict test_runtime [0x7F8E, 0x7684, 0x7A7A, 0x8C03, 0x4B, 0x46, 0x52, 0x2D, 0x32, 0x36, 0x47, 0x57] [0x683C, 0x529B, 0x4B, 0x46, 0x52, 0x2D, 0x32, 0x36, 0x47, 0x57] [] [] = BrandMismatch \<and>
   relevance_verdict test_runtime [0x683C, 0x529B, 0x4B, 0x46, 0x52, 0x2D, 0x32, 0x36, 0x47, 0x57] [0x683C, 0x529B, 0x4B, 0x46, 0x52, 0x2D, 0x32, 0x36, 0x47, 0x57] [] [] \<noteq> BrandMismatch"
proof -
  have a: "extract_brand_info test_runtime [0x7F8E, 0x7684, 0x7A7A, 0x8C03, 0x4B, 0x46, 0x52, 0x2D, 0x32, 0x36, 0x47, 0x57] = [0x7F8E, 0x7684]"
    and b: "extract_brand_info test_runtime [0x683C, 0x529B, 0x4B, 0x46, 0x52, 0x2D, 0x32, 0x36, 0x47, 0x57] = [0x683C, 0x529B]"
    by (simp_all add: extract_brand_info_def relevance_brands_def test_runtime_def ascii_lower_def
        startswith_def)
  have c: "\<not> category_conflict test_runtime [0x7F8E, 0x7684, 0x7A7A, 0x8C03, 0x4B, 0x46, 0x52, 0x2D, 0x32, 0x36, 0x47, 0x57] [0x683C, 0x529B, 0x4B, 0x46, 0x52, 0x2D, 0x32, 0x36, 0x47, 0x57]"
    by (simp add: relevance_defs)
  have d: "\<not> is_chinese_with_number test_runtime [0x7F8E, 0x7684, 0x7A7A, 0x8C03, 0x4B, 0x46, 0x52, 0x2D, 0x32, 0x36, 0x47, 0x57]"
    by (simp add: relevance_defs)
  have na: "extract_brand_info test_runtime [0x7F8E, 0x7684, 0x7A7A, 0x8C03, 0x4B, 0x46, 0x52, 0x2D, 0x32, 0x36, 0x47, 0x57] \<noteq> []"
    and nb: "extract_brand_info test_runtime [0x683C, 0x529B, 0x4B, 0x46, 0x52, 0x2D, 0x32, 0x36, 0x47, 0x57] \<noteq> []"
    by (simp_all add: a b)
  from brand_check_alias_equivalent [OF lower_standard_test na nb, of "[]" "[]"]
       brand_check_alias_equivalent [OF lower_standard_test nb nb, of "[]" "[]"]
       a b c d lower_standard_test
  show ?thesis by simp
qed

section \<open>Properties of the batch\<close>

lemma single_result: "fst (search_single_product rt d e st) = worker_result rt (d, e)"
  by (cases d) (simp add: search_single_product_def worker_result_def Let_def
      split: sum.splits prod.splits)

lemma single_stats:
  "total_processed (snd (search_single_product rt d e st)) = total_processed st + 1"
  by (cases d) (simp add: search_single_product_def update_stats_def Let_def split: sum.splits prod.splits)

lemma run_futures_results: "fst (run_futures rt jobs st) = map (worker_result rt) jobs"
proof (induction jobs arbitrary: st)
  case Nil then show ?case by simp
next
  case (Cons j jobs)
  obtain d e where j: "j = (d, e)" by (cases j) auto
  show ?case using Cons[of "snd (search_single_product rt d e st)"] single_result[of rt d e st]
    by (simp add: j collect_def case_prod_beta Let_def)
qed

lemma run_futures_stats:
  "total_processed (snd (run_futures rt jobs st)) = total_processed st + length jobs"
proof (induction jobs arbitrary: st)
  case Nil then show ?case by simp
next
  case (Cons j jobs)
  obtain d e where j: "j = (d, e)" by (cases j) auto
  show ?case using Cons[of "snd (search_single_product rt d e st)"] single_stats[of rt d e st]
    by (simp add: j case_prod_beta Let_def)
qed

lemma pipeline_row_index:
  "(pipeline rt d e r0 = Inr r \<longrightarrow> row_index r = row_index r0) \<and>
   (pipeline rt d e r0 = Inl (m, r) \<longrightarrow>
      row_index r = row_index r0 \<and> validation_result r = validation_result r0)"
  by (cases d) (auto simp: pipeline_def Let_def split: sum.splits option.splits if_splits)

lemma worker_row_index: "row_index (worker_result rt (d, e)) = fst d"
proof -
  obtain idx original excel_level where d: "d = (idx, original, excel_level)"
    by (cases d) auto
  show ?thesis
    using pipeline_row_index[of rt d e]
    by (auto simp: worker_result_def search_single_product_def Let_def d
        split: sum.splits prod.splits)
qed

lemma msg_nonempty: "msg_error \<noteq> []" "msg_no_result \<noteq> []" "msg_task_failed \<noteq> []"
  by (simp_all add: msg_error_def msg_no_result_def msg_task_failed_def)

lemma pipeline_failure:
  assumes "query_fails ((idx, original, excel_level), env)"
  shows "(\<exists>m r. pipeline rt (idx, original, excel_level) env r0 = Inl (m, r)) \<or>
         pipeline rt (idx, original, excel_level) env r0 = Inr (r0\<lparr>details := msg_no_result\<rparr>)"
  using assms
  by (auto simp: query_fails_def pipeline_def Let_def
      split: sum.splits option.splits search_result.splits)

lemma worker_failure:
  assumes "query_fails job"
  shows "validation_result (worker_result rt job) = v_not_found \<and>
         details (worker_result rt job) \<noteq> [] \<and>
         row_index (worker_result rt job) = fst (fst job)"
proof -
  obtain idx original excel_level env where j: "job = ((idx, original, excel_level), env)"
    by (cases job) auto
  let ?r0 = "\<lparr>row_index = idx, original_model = original, excel_energy_level = excel_level,
             res_search_success = False, validation_result = v_not_found, details = [],
             thread_id = Some (worker_thread env), search_energy_level = None,
             matched_model = None, res_producer = None\<rparr>"
  from pipeline_failure[OF assms[unfolded j], of rt ?r0]
  consider (raised) m r where "pipeline rt (idx, original, excel_level) env ?r0 = Inl (m, r)"
    | (empty) "pipeline rt (idx, original, excel_level) env ?r0 =
               Inr (?r0\<lparr>details := msg_no_result\<rparr>)"
    by blast
  then show ?thesis
  proof cases
    case raised
    with pipeline_row_index[of rt "(idx, original, excel_level)" env ?r0 r m]
    show ?thesis
      by (simp add: j worker_result_def search_single_product_def Let_def msg_nonempty)
  next
    case empty
    then show ?thesis
      by (simp add: j worker_result_def search_single_product_def Let_def msg_nonempty)
  qed
qed

lemma collect_failure:
  "validation_result (collect d (Inl e)) = v_not_found \<and> details (collect d (Inl e)) \<noteq> [] \<and>
   row_index (collect d (Inl e)) = fst d"
  by (cases d) (simp add: collect_def msg_nonempty)


lemma completed_mset:
  assumes "mset order = mset [0..<length jobs]"
  shows "mset (map (\<lambda>i. g (jobs ! i)) order) = mset (map g jobs)"
proof -
  have "mset (map (\<lambda>i. g (jobs ! i)) order) = image_mset (\<lambda>i. g (jobs ! i)) (mset order)"
    by (rule mset_map)
  also have "\<dots> = image_mset (\<lambda>i. g (jobs ! i)) (mset [0..<length jobs])"
    by (simp only: assms)
  also have "\<dots> = mset (map (\<lambda>i. g (jobs ! i)) [0..<length jobs])"
    by (rule mset_map[symmetric])
  also have "map (\<lambda>i. g (jobs ! i)) [0..<length jobs] = map g (map (\<lambda>i. jobs ! i) [0..<length jobs])"
    by simp
  also have "map (\<lambda>i. jobs ! i) [0..<length jobs] = jobs" by (rule map_nth)
  finally show ?thesis .
qed

lemma process_batch_returns:
  assumes "0 < max_workers" "length envs = length products_data"
    and "mset order = mset [0..<length products_data]"
    and "products_data \<noteq> []" "elapsed \<noteq> 0"
  shows "fst (process_batch rt max_workers st products_data envs order elapsed) =
           Inr (sort_key row_index
                  (map (\<lambda>i. worker_result rt (zip products_data envs ! i)) order))"
proof -
  let ?jobs = "map (\<lambda>i. zip products_data envs ! i) order"
  have "length order = length products_data"
    using mset_eq_length[OF assms(3)] by simp
  then have "0 < length ?jobs" using assms(4) by simp
  then have t: "total_processed (snd (run_futures rt ?jobs st)) \<noteq> 0"
    by (simp add: run_futures_stats)
  have r: "fst (run_futures rt ?jobs st) =
           map (\<lambda>i. worker_result rt (zip products_data envs ! i)) order"
    by (simp add: run_futures_results comp_def)
  show ?thesis
    using assms(1,5) t r
    by (simp add: process_batch_def Let_def case_prod_beta print_final_stats_def)
qed

lemma filter_distinct_key:
  "distinct (map f ys) \<Longrightarrow> k \<in> set ys \<Longrightarrow> filter (\<lambda>x. f k = f x) ys = [k]"
proof (induction ys)
  case Nil then show ?case by simp
next
  case (Cons y ys)
  show ?case
  proof (cases "k = y")
    case True
    have "filter (\<lambda>x. f y = f x) ys = []"
      using Cons.prems(1) by (auto simp: filter_empty_conv)
    with True show ?thesis by simp
  next
    case False
    with Cons.prems have k: "k \<in> set ys" by simp
    then have "f k \<in> f ` set ys" by (rule imageI)
    then have "f k \<noteq> f y" using Cons.prems(1) by auto
    with Cons.IH k Cons.prems(1) show ?thesis by simp
  qed
qed

lemma sort_key_permutation:
  assumes "mset xs = mset ys" "sorted_wrt (<) (map f ys)"
  shows "sort_key f xs = ys"
proof (rule properties_for_sort_key)
  show "mset ys = mset xs" using assms(1) by simp
  have sd: "sorted (map f ys)" "distinct (map f ys)"
    using assms(2) by (simp_all add: strict_sorted_iff)
  show "sorted (map f ys)" by (rule sd(1))
  fix k assume k: "k \<in> set ys"
  have "mset (filter (\<lambda>x. f k = f x) xs) = mset (filter (\<lambda>x. f k = f x) ys)"
    by (simp add: assms(1))
  also have "\<dots> = {#k#}" using filter_distinct_key[OF sd(2) k] by simp
  finally have "filter (\<lambda>x. f k = f x) xs = [k]" by (simp only: mset_single_iff)
  with filter_distinct_key[OF sd(2) k]
  show "filter (\<lambda>x. f k = f x) ys = filter (\<lambda>x. f k = f x) xs" by simp
qed

lemma process_batch_input_order:
  assumes "0 < max_workers" "length envs = length products_data"
    and "mset order = mset [0..<length products_data]"
    and "products_data \<noteq> []" "elapsed \<noteq> 0"
    and "sorted_wrt (<) (map fst products_data)"
  shows "fst (process_batch rt max_workers st products_data envs order elapsed) =
           Inr (map (worker_result rt) (zip products_data envs))"
proof -
  let ?jobs = "zip products_data envs"
  have len: "length ?jobs = length products_data" using assms(2) by simp
  have m: "mset (map (\<lambda>i. worker_result rt (?jobs ! i)) order) = mset (map (worker_result rt) ?jobs)"
    using assms(3) len by (intro completed_mset) simp
  have wr: "row_index (worker_result rt x) = fst (fst x)" for x
    using worker_row_index[of rt "fst x" "snd x"] by simp
  have "map row_index (map (worker_result rt) ?jobs) = map fst (map fst ?jobs)"
    by (simp add: wr)
  also have "map fst ?jobs = products_data" using assms(2) by simp
  finally have s: "sorted_wrt (<) (map row_index (map (worker_result rt) ?jobs))"
    using assms(6) by simp
  have "sort_key row_index (map (\<lambda>i. worker_result rt (?jobs ! i)) order) =
        map (worker_result rt) ?jobs"
    using m s by (rule sort_key_permutation)
  then show ?thesis using process_batch_returns[OF assms(1-5)] by simp
qed

subsection \<open>C2: the batch of no query\<close>

text \<open>
  C2 asks that \<open>process_batch\<close> return a list as long as its input, for every input. For
  the empty list, on a new processor with the three workers of the default, the function
  returns no list: \<open>_print_final_stats\<close> divides by the number of processed queries, which
  is zero, and the \<open>ZeroDivisionError\<close> leaves \<open>process_batch\<close>. For a list that is not
  empty the function returns, and for row indices in strictly ascending order the results
  are in the order of the input, as \<open>process_batch_input_order\<close> shows.
\<close>

theorem process_batch_empty:
  "fst (process_batch rt 3 init_stats [] [] [] elapsed) = Inl ZeroDivisionError"
  by (simp add: process_batch_def print_final_stats_def init_stats_def)

text \<open>
  When the clock advances during the batch, a failure stays with its query: in a batch run
  by at least one worker, whatever the order of completion, when the processing of a query
  fails (a stage raises, or the search answers \<open>None\<close> or no record), the batch returns a
  list that holds exactly the results of the calls for its queries, each computed from its
  own query and world; the result of the failed query is in it, with the row index of the
  query, the verdict \<open>v_not_found\<close> and details that are not empty. The same holds for the
  result built for a call whose exception reaches the loop of \<open>process_batch\<close>.
\<close>

lemma batch_isolation_clock_advances:
  assumes "0 < max_workers" "length envs = length products_data"
    and "mset order = mset [0..<length products_data]"
    and "elapsed \<noteq> 0"
    and "i < length products_data"
    and "query_fails (zip products_data envs ! i)"
  shows "(\<exists>out. fst (process_batch rt max_workers st products_data envs order elapsed) = Inr out \<and>
            mset out = mset (map (worker_result rt) (zip products_data envs)) \<and>
            worker_result rt (zip products_data envs ! i) \<in> set out) \<and>
         row_index (worker_result rt (zip products_data envs ! i)) = fst (products_data ! i) \<and>
         validation_result (worker_result rt (zip products_data envs ! i)) = v_not_found \<and>
         details (worker_result rt (zip products_data envs ! i)) \<noteq> [] \<and>
         row_index (collect (products_data ! i) (Inl e)) = fst (products_data ! i) \<and>
         validation_result (collect (products_data ! i) (Inl e)) = v_not_found \<and>
         details (collect (products_data ! i) (Inl e)) \<noteq> []"
proof -
  let ?jobs = "zip products_data envs"
  let ?out = "sort_key row_index (map (\<lambda>i. worker_result rt (?jobs ! i)) order)"
  have ne: "products_data \<noteq> []" using assms(5) by auto
  have len: "length ?jobs = length products_data" using assms(2) by simp
  have r: "fst (process_batch rt max_workers st products_data envs order elapsed) = Inr ?out"
    using assms(1,2,3) ne assms(4) by (rule process_batch_returns)
  have m: "mset ?out = mset (map (worker_result rt) ?jobs)"
    using assms(3) len by (simp only: mset_sort) (intro completed_mset, simp)
  have "worker_result rt (?jobs ! i) \<in> set (map (worker_result rt) ?jobs)"
    using assms(5) len by (metis length_map nth_map nth_mem)
  then have mem: "worker_result rt (?jobs ! i) \<in> set ?out"
    using m by (metis mset_eq_setD)
  have ji: "fst (?jobs ! i) = products_data ! i" using assms(2,5) by simp
  from worker_failure[OF assms(6), of rt] collect_failure[of "products_data ! i" e] r m mem ji
  show ?thesis by simp
qed


text \<open>
  A batch of two queries, of which the second completes first: the search of the first
  raises, the second is matched and correct.
\<close>

lemma batch_isolation_example:
  "(0::int) < 3 \<and>
   length
      [\<lparr>worker_thread = 2, rate_limit_error = None, crawler_error = None,
        search_product = (\<lambda>q. Inl [0x62, 0x6F, 0x6F, 0x6D]),
        stage_error = (\<lambda>s. None)\<rparr>,
       \<lparr>worker_thread = 1, rate_limit_error = None, crawler_error = None,
        search_product = (\<lambda>q. Inr (Records
          [\<lparr>nxLever = LevelInt 1, productModel = [0x39, 0x39], producerName = [],
            registrationNumber = [], productType = [], announcementTime = []\<rparr>])),
        stage_error = (\<lambda>s. None)\<rparr>] = length [(3, [0x33, 0x34], [0x4E8C, 0x7EA7]), (7, [0x31, 0x32], [0x4E00, 0x7EA7])] \<and>
   mset [1, 0] = mset [0..<length [(3, [0x33, 0x34], [0x4E8C, 0x7EA7]), (7, [0x31, 0x32], [0x4E00, 0x7EA7])]] \<and>
   (1::real) \<noteq> 0 \<and>
   0 < length [(3, [0x33, 0x34], [0x4E8C, 0x7EA7]), (7, [0x31, 0x32], [0x4E00, 0x7EA7])] \<and>
   query_fails (zip [(3, [0x33, 0x34], [0x4E8C, 0x7EA7]), (7, [0x31, 0x32], [0x4E00, 0x7EA7])]
      [\<lparr>worker_thread = 2, rate_limit_error = None, crawler_error = None,
        search_product = (\<lambda>q. Inl [0x62, 0x6F, 0x6F, 0x6D]),
        stage_error = (\<lambda>s. None)\<rparr>,
       \<lparr>worker_thread = 1, rate_limit_error = None, crawler_error = None,
        search_product = (\<lambda>q. Inr (Records
          [\<lparr>nxLever = LevelInt 1, productModel = [0x39, 0x39], producerName = [],
            registrationNumber = [], productType = [], announcementTime = []\<rparr>])),
        stage_error = (\<lambda>s. None)\<rparr>] ! 0) \<and>
   fst (process_batch test_runtime 3 init_stats
      [(3, [0x33, 0x34], [0x4E8C, 0x7EA7]), (7, [0x31, 0x32], [0x4E00, 0x7EA7])]
      [\<lparr>worker_thread = 2, rate_limit_error = None, crawler_error = None,
        search_product = (\<lambda>q. Inl [0x62, 0x6F, 0x6F, 0x6D]),
        stage_error = (\<lambda>s. None)\<rparr>,
       \<lparr>worker_thread = 1, rate_limit_error = None, crawler_error = None,
        search_product = (\<lambda>q. Inr (Records
          [\<lparr>nxLever = LevelInt 1, productModel = [0x39, 0x39], producerName = [],
            registrationNumber = [], productType = [], announcementTime = []\<rparr>])),
        stage_error = (\<lambda>s. None)\<rparr>]
      [1, 0] 1) =
   Inr [\<lparr>row_index = 3, original_model = [0x33, 0x34], excel_energy_level = [0x4E8C, 0x7EA7],
        res_search_success = False, validation_result = v_not_found,
        details = msg_error @ [0x62, 0x6F, 0x6F, 0x6D],
        thread_id = Some 2, search_energy_level = None,
        matched_model = None, res_producer = None\<rparr>,
       \<lparr>row_index = 7, original_model = [0x31, 0x32], excel_energy_level = [0x4E00, 0x7EA7],
        res_search_success = True, validation_result = v_correct,
        details = msg_match @ [0x39, 0x39] @ msg_dash @ [0x4E00, 0x7EA7],
        thread_id = Some 1, search_energy_level = Some [0x4E00, 0x7EA7],
        matched_model = Some [0x39, 0x39], res_producer = Some []\<rparr>]"
proof -
  let ?d = "[(3, [0x33, 0x34], [0x4E8C, 0x7EA7]), (7, [0x31, 0x32], [0x4E00, 0x7EA7])]"
  let ?e = "[\<lparr>worker_thread = 2, rate_limit_error = None, crawler_error = None,
        search_product = (\<lambda>q. Inl [0x62, 0x6F, 0x6F, 0x6D]),
        stage_error = (\<lambda>s. None)\<rparr>,
       \<lparr>worker_thread = 1, rate_limit_error = None, crawler_error = None,
        search_product = (\<lambda>q. Inr (Records
          [\<lparr>nxLever = LevelInt 1, productModel = [0x39, 0x39], producerName = [],
            registrationNumber = [], productType = [], announcementTime = []\<rparr>])),
        stage_error = (\<lambda>s. None)\<rparr>]"
  have u: "[0..<length ?d] = [0, 1]" by (simp add: upt_rec)
  have h1: "(0::int) < 3" by simp
  have h2: "length ?e = length ?d" by simp
  have h3: "mset [1, 0] = mset [0..<length ?d]" by (simp only: u) simp
  have h4: "(1::real) \<noteq> 0" by simp
  have h5: "0 < length ?d" by simp
  have h6: "query_fails (zip ?d ?e ! 0)" by (simp add: query_fails_def)
  have w0: "worker_result test_runtime (zip ?d ?e ! 0) =
      \<lparr>row_index = 3, original_model = [0x33, 0x34], excel_energy_level = [0x4E8C, 0x7EA7],
        res_search_success = False, validation_result = v_not_found,
        details = msg_error @ [0x62, 0x6F, 0x6F, 0x6D],
        thread_id = Some 2, search_energy_level = None,
        matched_model = None, res_producer = None\<rparr>"
    by (simp add: worker_result_def search_single_product_def pipeline_def)
  have w1: "worker_result test_runtime (zip ?d ?e ! 1) =
      \<lparr>row_index = 7, original_model = [0x31, 0x32], excel_energy_level = [0x4E00, 0x7EA7],
        res_search_success = True, validation_result = v_correct,
        details = msg_match @ [0x39, 0x39] @ msg_dash @ [0x4E00, 0x7EA7],
        thread_id = Some 1, search_energy_level = Some [0x4E00, 0x7EA7],
        matched_model = Some [0x39, 0x39], res_producer = Some []\<rparr>"
    using pipeline_example by (simp add: worker_result_def)
  have r: "fst (process_batch test_runtime 3 init_stats ?d ?e [1, 0] 1) =
      Inr (sort_key row_index (map (\<lambda>i. worker_result test_runtime (zip ?d ?e ! i)) [1, 0]))"
    using h1 h2 h3 _ h4 by (rule process_batch_returns) simp
  from batch_isolation_clock_advances [OF h1 h2 h3 h4 h5 h6, of test_runtime init_stats "[]"]
    h1 h2 h3 h4 h5 h6 r w0 w1
  show ?thesis by simp
qed

subsection \<open>C3: a failure stays with its query\<close>

text \<open>
  C3 asks that the batch yield a result with the verdict \<open>v_not_found\<close> for every query
  whose processing fails. The call for such a query does produce that result, but
  \<open>process_batch\<close> returns its list only after \<open>_print_final_stats\<close>, which divides by
  the elapsed time: in a batch of one query for which the creation of the crawler raises at
  once, and for which the two readings of the clock are equal, the \<open>ZeroDivisionError\<close>
  leaves \<open>process_batch\<close> and no result is returned.
\<close>

theorem process_batch_clock_standstill:
  "query_fails ((3, [0x33, 0x34], [0x4E8C, 0x7EA7]),
      \<lparr>worker_thread = 1, rate_limit_error = None,
       crawler_error = Some [0x62, 0x6F, 0x6F, 0x6D],
       search_product = (\<lambda>q. Inr NoResult), stage_error = (\<lambda>s. None)\<rparr>) \<and>
   validation_result (worker_result rt ((3, [0x33, 0x34], [0x4E8C, 0x7EA7]),
      \<lparr>worker_thread = 1, rate_limit_error = None,
       crawler_error = Some [0x62, 0x6F, 0x6F, 0x6D],
       search_product = (\<lambda>q. Inr NoResult), stage_error = (\<lambda>s. None)\<rparr>)) = v_not_found \<and>
   fst (process_batch rt 3 init_stats [(3, [0x33, 0x34], [0x4E8C, 0x7EA7])]
      [\<lparr>worker_thread = 1, rate_limit_error = None,
        crawler_error = Some [0x62, 0x6F, 0x6F, 0x6D],
        search_product = (\<lambda>q. Inr NoResult), stage_error = (\<lambda>s. None)\<rparr>]
      [0] 0) = Inl ZeroDivisionError"
  by (simp add: query_fails_def worker_result_def search_single_product_def pipeline_def
      process_batch_def print_final_stats_def update_stats_def init_stats_def collect_def)

text \<open>The same batch with the runtime of the examples.\<close>

theorem process_batch_clock_standstill_witness:
  "query_fails ((3, [0x33, 0x34], [0x4E8C, 0x7EA7]),
      \<lparr>worker_thread = 1, rate_limit_error = None,
       crawler_error = Some [0x62, 0x6F, 0x6F, 0x6D],
       search_product = (\<lambda>q. Inr NoResult), stage_error = (\<lambda>s. None)\<rparr>) \<and>
   fst (process_batch test_runtime 3 init_stats [(3, [0x33, 0x34], [0x4E8C, 0x7EA7])]
      [\<lparr>worker_thread = 1, rate_limit_error = None,
        crawler_error = Some [0x62, 0x6F, 0x6F, 0x6D],
        search_product = (\<lambda>q. Inr NoResult), stage_error = (\<lambda>s. None)\<rparr>]
      [0] 0) = Inl ZeroDivisionError"
  using process_batch_clock_standstill [of test_runtime] by blast

end
